theory Spec2Isabelle
  imports Complex_Main "HOL-Library.Word" "HOL-Library.Sublist"
begin

unbundle bit_operations_syntax

section \<open>Values shared by the search and update paths\<close>

text \<open>
  Go's \<^verbatim>\<open>error\<close> values. \<^verbatim>\<open>NewStorageError(msg, err)\<close> keeps the message and the
  wrapped error (\<open>None\<close> for a nil one), \<^verbatim>\<open>fmt.Errorf("msg %w", err)\<close> is \<open>Wrapped\<close>,
  \<^verbatim>\<open>errors.New\<close> is \<open>ErrorsNew\<close>. A run-time panic (nil dereference, index out of
  range) is \<open>Panic\<close>: it is not returned by the function that raises it, it ends the
  call and every caller up to the request handler. \<open>External\<close> is an error coming back
  from a collaborator that is not part of these sources (the store, the embedding
  provider, encoding/json).
\<close>

datatype error =
    StorageError string "error option"
  | ErrorsNew string
  | Wrapped string error
  | NotFoundError string
  | External string
  | Panic string

fun is_panic :: "error \<Rightarrow> bool" where
  "is_panic (Panic _) = True"
| "is_panic _ = False"

text \<open>
  A decoded JSON value, the \<^verbatim>\<open>interface{}\<close> held by a \<^verbatim>\<open>map[string]interface{}\<close>.
  A map is an association list; a Go map has no repeated key and no order, and the first
  entry of a key is the one a lookup reads. Numbers are integers here: no function of
  these sources computes with them.
\<close>

datatype json =
    JNull
  | JBool bool
  | JNum int
  | JStr string
  | JList "json list"
  | JObj "(string \<times> json) list"

type_synonym metadata = "(string \<times> json) list"

text \<open>
  \<^verbatim>\<open>[]float32\<close>: an entry of a vector is the number its float32 denotes (no function of
  these sources computes with the entries; they pass from the embedding provider to
  the store). A float64 is its 64 bits.
\<close>

type_synonym vector = "real list"
type_synonym float64 = "64 word"

text \<open>
  \<^verbatim>\<open>math.IsNaN\<close>: an IEEE 754 double is a NaN exactly when its eleven exponent bits are
  all set and its fraction is not zero.
\<close>

definition IsNaN :: "float64 \<Rightarrow> bool" where
  "IsNaN f \<longleftrightarrow> (f AND 0x7FF0000000000000 = 0x7FF0000000000000) \<and> (f AND 0x000FFFFFFFFFFFFF \<noteq> 0)"

section \<open>The query builder\<close>

text \<open>
  The part of bun's \<^verbatim>\<open>SelectQuery\<close> the search code drives. A bound argument of a
  \<^verbatim>\<open>?\<close> placeholder is a string, a pgvector vector or a JSON value.
\<close>

datatype sql_arg = ArgStr string | ArgVector vector | ArgJSON json

text \<open>
  One entry of the WHERE list. bun keeps, for every entry, the separator that joins it
  to the entry before it (\<^verbatim>\<open>" AND "\<close> for \<^verbatim>\<open>Where\<close>, \<^verbatim>\<open>" OR "\<close> for \<^verbatim>\<open>WhereOr\<close>), and
  renders a group as the separator, an opening parenthesis, the entries collected by the
  callback and a closing parenthesis. The separator of the first entry of the list, and
  of the first entry of a group, is not rendered.
\<close>

datatype QueryWithSep =
    Cond string string "sql_arg list"
  | Group string "QueryWithSep list"

fun Sep :: "QueryWithSep \<Rightarrow> string" where
  "Sep (Cond s _ _) = s"
| "Sep (Group s _) = s"

definition Where_qb :: "QueryWithSep list \<Rightarrow> string \<Rightarrow> sql_arg list \<Rightarrow> QueryWithSep list" where
  "Where_qb qb query args = qb @ [Cond '' AND '' query args]"

definition WhereOr :: "QueryWithSep list \<Rightarrow> string \<Rightarrow> sql_arg list \<Rightarrow> QueryWithSep list" where
  "WhereOr qb query args = qb @ [Cond '' OR '' query args]"

text \<open>
  \<^verbatim>\<open>WhereGroup(sep, fn)\<close> runs the callback on a builder whose WHERE list is empty and
  receives what it collected (\<open>collected\<close>); a callback that collected nothing adds
  nothing.
\<close>

definition WhereGroup :: "QueryWithSep list \<Rightarrow> string \<Rightarrow> QueryWithSep list \<Rightarrow> QueryWithSep list" where
  "WhereGroup qb sep collected = (if collected = [] then qb else qb @ [Group sep collected])"

section \<open>The predicate compiler\<close>

text \<open>
  \<^verbatim>\<open>JSONQuery\<close>. The child slices hold pointers (\<^verbatim>\<open>[]*JSONQuery\<close>), and a JSON \<^verbatim>\<open>null\<close>
  in an array decodes to a nil pointer: \<open>NilQuery\<close>.
\<close>

datatype JSONQuery =
    NilQuery
  | JSONQuery string "JSONQuery list" "JSONQuery list"

text \<open>\<^verbatim>\<open>strings.ReplaceAll(path, "'", "\"")\<close>.\<close>

definition ReplaceAll_quote :: "string \<Rightarrow> string" where
  "ReplaceAll_quote p = map (\<lambda>c. if c = CHR 0x27 then CHR 0x22 else c) p"

text \<open>
  \<open>parseJSONQuery\<close> with the two \<^verbatim>\<open>for ... range\<close> loops of its callbacks as
  \<open>parseJSONQuery_range\<close>. Reading a field of a nil node panics.
\<close>

fun parseJSONQuery :: "QueryWithSep list \<Rightarrow> JSONQuery \<Rightarrow> bool \<Rightarrow> error + QueryWithSep list"
  and parseJSONQuery_range :: "QueryWithSep list \<Rightarrow> JSONQuery list \<Rightarrow> bool \<Rightarrow> error + QueryWithSep list"
where
  "parseJSONQuery qb NilQuery isOr = Inl (Panic ''nil pointer dereference'')"
| "parseJSONQuery qb (JSONQuery JSONPath And Or) isOr =
     (let qb1 =
        (if JSONPath \<noteq> '''' then
           (if isOr
            then WhereOr qb ''jsonb_path_exists(m.metadata, ?)'' [ArgStr (ReplaceAll_quote JSONPath)]
            else Where_qb qb ''jsonb_path_exists(m.metadata, ?)'' [ArgStr (ReplaceAll_quote JSONPath)])
         else qb)
      in
      case (if length And > 0
            then (case parseJSONQuery_range [] And False of
                    Inl e \<Rightarrow> Inl e
                  | Inr qq \<Rightarrow> Inr (WhereGroup qb1 '' AND '' qq))
            else Inr qb1) of
        Inl e \<Rightarrow> Inl e
      | Inr qb2 \<Rightarrow>
          (if length Or > 0
           then (case parseJSONQuery_range [] Or True of
                   Inl e \<Rightarrow> Inl e
                 | Inr qq \<Rightarrow> Inr (WhereGroup qb2 '' AND '' qq))
           else Inr qb2))"
| "parseJSONQuery_range qq [] isOr = Inr qq"
| "parseJSONQuery_range qq (subQuery # rest) isOr =
     (case parseJSONQuery qq subQuery isOr of
        Inl e \<Rightarrow> Inl e
      | Inr qq' \<Rightarrow> parseJSONQuery_range qq' rest isOr)"

section \<open>What a WHERE list selects\<close>

text \<open>
  A row of the searched table, as far as the predicates of this code read it: its
  session, its creation time, its delete marker (\<open>None\<close> for SQL NULL) and the JSON
  paths that exist in its metadata document.
\<close>

record row =
  session_id :: string
  created_at :: int
  deleted_at :: "int option"
  metadata_paths :: "string list"

text \<open>The store's reading of the condition texts this code emits.\<close>

definition cond_holds :: "row \<Rightarrow> string \<Rightarrow> sql_arg list \<Rightarrow> bool" where
  "cond_holds r query args =
     (if query = ''jsonb_path_exists(m.metadata, ?)'' then
        (case args of [ArgStr p] \<Rightarrow> p \<in> set (metadata_paths r) | _ \<Rightarrow> False)
      else if query = ''m.session_id = ?'' then
        (case args of [ArgStr s] \<Rightarrow> session_id r = s | _ \<Rightarrow> False)
      else if query = ''m.deleted_at IS NULL'' \<or> query = ''deleted_at IS NULL'' then
        deleted_at r = None
      else if query = ''m.created_at >= ?'' then
        (case args of [ArgJSON (JNum t)] \<Rightarrow> t \<le> created_at r | _ \<Rightarrow> False)
      else if query = ''m.created_at <= ?'' then
        (case args of [ArgJSON (JNum t)] \<Rightarrow> created_at r \<le> t | _ \<Rightarrow> False)
      else False)"

text \<open>
  The metrics the claims speak of: the negative inner product of two vectors, and their
  cosine distance, which is 1 minus their cosine similarity.
\<close>

definition inner_product :: "vector \<Rightarrow> vector \<Rightarrow> real" where
  "inner_product a b = (\<Sum>(x, y)\<leftarrow>zip a b. x * y)"

definition negative_inner_product :: "vector \<Rightarrow> vector \<Rightarrow> real" where
  "negative_inner_product a b = - inner_product a b"

definition cosine_similarity :: "vector \<Rightarrow> vector \<Rightarrow> real" where
  "cosine_similarity a b = inner_product a b / (sqrt (inner_product a a) * sqrt (inner_product b b))"

definition cosine_distance :: "vector \<Rightarrow> vector \<Rightarrow> real" where
  "cosine_distance a b = 1 - cosine_similarity a b"

text \<open>
  The store's reading of the two distance expressions this code emits, for a stored
  embedding and the vector bound to the placeholder. The operators are pgvector's:
  \<^verbatim>\<open><#>\<close> is the negative inner product and \<^verbatim>\<open><=>\<close> is the cosine distance. The rounding
  of the store's float arithmetic is left out.
\<close>

definition dist_column :: "string \<Rightarrow> vector \<Rightarrow> vector \<Rightarrow> real option" where
  "dist_column query embedding arg =
     (if query = ''embedding <#> ? AS dist'' then Some (negative_inner_product embedding arg)
      else if query = ''1 - (embedding <=> ?) AS dist'' then Some (1 - cosine_distance embedding arg)
      else None)"

text \<open>
  SQL reads \<^verbatim>\<open>a AND b OR c AND d\<close> as \<^verbatim>\<open>(a AND b) OR (c AND d)\<close>. \<open>or_of_ands acc xs\<close>
  is the value of the rendered entries \<open>xs\<close> after a run of AND-joined entries of
  value \<open>acc\<close>.
\<close>

fun or_of_ands :: "bool \<Rightarrow> (string \<times> bool) list \<Rightarrow> bool" where
  "or_of_ands acc [] = acc"
| "or_of_ands acc ((s, b) # xs) =
     (if s = '' OR '' then acc \<or> or_of_ands b xs else or_of_ands (acc \<and> b) xs)"

definition sql_bool :: "(string \<times> bool) list \<Rightarrow> bool" where
  "sql_bool xs = (case xs of [] \<Rightarrow> True | (s, b) # rest \<Rightarrow> or_of_ands b rest)"

fun entry_holds :: "row \<Rightarrow> QueryWithSep \<Rightarrow> bool" where
  "entry_holds r (Cond s query args) = cond_holds r query args"
| "entry_holds r (Group s collected) = sql_bool (map (\<lambda>w. (Sep w, entry_holds r w)) collected)"

text \<open>An empty WHERE list renders no WHERE clause: every row is selected.\<close>

definition where_holds :: "row \<Rightarrow> QueryWithSep list \<Rightarrow> bool" where
  "where_holds r ws = sql_bool (map (\<lambda>w. (Sep w, entry_holds r w)) ws)"

text \<open>
  The rows a predicate tree matches: those its compiled WHERE list selects, compiled as
  the search code does (an empty builder, \<^verbatim>\<open>isOr = false\<close>).
\<close>

definition matches :: "row \<Rightarrow> JSONQuery \<Rightarrow> bool" where
  "matches r jq = (case parseJSONQuery [] jq False of Inl e \<Rightarrow> False | Inr ws \<Rightarrow> where_holds r ws)"

fun nil_free :: "JSONQuery \<Rightarrow> bool" where
  "nil_free NilQuery = False"
| "nil_free (JSONQuery p ands ors) = (list_all nil_free ands \<and> list_all nil_free ors)"

text \<open>
  The clauses a nil-free tree appends to a builder, written without the error plumbing;
  \<open>parse_clauses\<close> below proves that \<open>parseJSONQuery\<close> appends exactly these.
\<close>

definition leaf_clause :: "string \<Rightarrow> bool \<Rightarrow> QueryWithSep list" where
  "leaf_clause p isOr =
     (if p = '''' then []
      else [Cond (if isOr then '' OR '' else '' AND '') ''jsonb_path_exists(m.metadata, ?)''
              [ArgStr (ReplaceAll_quote p)]])"

fun clauses :: "JSONQuery \<Rightarrow> bool \<Rightarrow> QueryWithSep list" where
  "clauses NilQuery isOr = []"
| "clauses (JSONQuery p ands ors) isOr =
     leaf_clause p isOr
     @ WhereGroup [] '' AND '' (concat (map (\<lambda>c. clauses c False) ands))
     @ WhereGroup [] '' AND '' (concat (map (\<lambda>c. clauses c True) ors))"

text \<open>A node that carries a leaf condition of its own.\<close>

fun has_leaf :: "JSONQuery \<Rightarrow> bool" where
  "has_leaf NilQuery = False"
| "has_leaf (JSONQuery p ands ors) = (p \<noteq> '''')"

section \<open>Message search\<close>

record SelectQuery =
  q_model_soft_delete :: bool
  q_table :: string
  q_joins :: "(string \<times> string) list"
  q_columns :: "(string \<times> sql_arg list) list"
  q_where :: "QueryWithSep list"
  q_order :: "string list"
  q_limit :: int

text \<open>
  \<^verbatim>\<open>db.NewSelect()\<close> and the builder methods. \<open>q_model_soft_delete\<close> records whether the
  query was given a model whose type declares a soft-delete column: bun then renders
  \<^verbatim>\<open>AND deleted_at IS NULL\<close> after the WHERE list by itself.
\<close>

definition NewSelect :: SelectQuery where
  "NewSelect = \<lparr>q_model_soft_delete = False, q_table = '''', q_joins = [], q_columns = [],
                 q_where = [], q_order = [], q_limit = 0\<rparr>"

definition TableExpr :: "SelectQuery \<Rightarrow> string \<Rightarrow> SelectQuery" where
  "TableExpr q t = q\<lparr>q_table := t\<rparr>"

definition JoinOn :: "SelectQuery \<Rightarrow> string \<Rightarrow> string \<Rightarrow> SelectQuery" where
  "JoinOn q j cond = q\<lparr>q_joins := q_joins q @ [(j, cond)]\<rparr>"

definition ColumnExpr :: "SelectQuery \<Rightarrow> string \<Rightarrow> sql_arg list \<Rightarrow> SelectQuery" where
  "ColumnExpr q query args = q\<lparr>q_columns := q_columns q @ [(query, args)]\<rparr>"

definition Where_q :: "SelectQuery \<Rightarrow> string \<Rightarrow> sql_arg list \<Rightarrow> SelectQuery" where
  "Where_q q query args = q\<lparr>q_where := Where_qb (q_where q) query args\<rparr>"

definition Order :: "SelectQuery \<Rightarrow> string \<Rightarrow> SelectQuery" where
  "Order q by = q\<lparr>q_order := q_order q @ [by]\<rparr>"

definition Limit :: "SelectQuery \<Rightarrow> int \<Rightarrow> SelectQuery" where
  "Limit q n = q\<lparr>q_limit := n\<rparr>"

text \<open>A method called through a nil \<^verbatim>\<open>*bun.SelectQuery\<close> panics at its first field access.\<close>

definition deref :: "SelectQuery option \<Rightarrow> error + SelectQuery" where
  "deref p = (case p of None \<Rightarrow> Inl (Panic ''nil pointer dereference'') | Some q \<Rightarrow> Inr q)"

definition and_then :: "error + 'a \<Rightarrow> ('a \<Rightarrow> error + 'b) \<Rightarrow> error + 'b" where
  "and_then r f = (case r of Inl e \<Rightarrow> Inl e | Inr x \<Rightarrow> f x)"

text \<open>
  The rows a query selects: those its rendered WHERE clause holds for, which is the WHERE
  list followed, for a model with a soft-delete column, by bun's own condition.
\<close>

definition selects :: "SelectQuery \<Rightarrow> row \<Rightarrow> bool" where
  "selects q r \<longleftrightarrow>
     where_holds r
       (if q_model_soft_delete q then q_where q @ [Cond '' AND '' ''deleted_at IS NULL'' []]
        else q_where q)"

text \<open>
  \<^verbatim>\<open>models.MemorySearchPayload\<close> and \<^verbatim>\<open>models.DocumentSearchPayload\<close> (the code reads
  \<open>Text\<close> and \<open>Metadata\<close> of both), and a result row with its distance.
\<close>

record SearchPayload =
  Text :: string
  Metadata :: metadata

record MemorySearchResult =
  message_uuid :: string
  Dist :: float64

text \<open>
  The collaborators. \<open>AppState\<close> holds what the calls of package \<^verbatim>\<open>llms\<close> answer for
  this application state: the embedding model, and the vectors of a list of texts (the
  message search and the document search call two versions of that package, with and
  without a document type). \<open>bunDB\<close> holds what the store answers to a query it is asked
  to scan; the handle itself is not nil. A \<open>call\<close> records one request sent to either, in
  order.
\<close>

record AppState =
  GetMessageEmbeddingModel :: "error + string"
  EmbedTexts :: "string \<Rightarrow> string list \<Rightarrow> error + vector list"
  GetDocumentEmbeddingModel :: "string \<Rightarrow> error + string"
  EmbedDocumentTexts :: "string \<Rightarrow> string \<Rightarrow> string list \<Rightarrow> error + vector list"

record bunDB =
  Scan :: "SelectQuery \<Rightarrow> error + MemorySearchResult list"

datatype call =
    CallGetEmbeddingModel
  | CallEmbedTexts string "string list"
  | CallScan SelectQuery

definition defaultSearchLimit :: int where
  "defaultSearchLimit = 10"

definition addMessagesVectorColumn ::
  "AppState \<Rightarrow> SelectQuery \<Rightarrow> string \<Rightarrow> (error + SelectQuery) \<times> call list" where
  "addMessagesVectorColumn appState q queryText =
     (case GetMessageEmbeddingModel appState of
        Inl err \<Rightarrow>
          (Inl (StorageError ''failed to get message embedding model'' (Some err)),
           [CallGetEmbeddingModel])
      | Inr model \<Rightarrow>
          (case EmbedTexts appState model [queryText] of
             Inl err \<Rightarrow>
               (Inl (StorageError ''failed to embed query'' (Some err)),
                [CallGetEmbeddingModel, CallEmbedTexts model [queryText]])
           | Inr e \<Rightarrow>
               (case e of
                  [] \<Rightarrow> Inl (Panic ''index out of range'')
                | e0 # _ \<Rightarrow> Inr (ColumnExpr q ''embedding <#> ? AS dist'' [ArgVector e0]),
                [CallGetEmbeddingModel, CallEmbedTexts model [queryText]])))"

text \<open>
  \<open>buildMessagesSelectQuery\<close> drops the error of \<open>addMessagesVectorColumn\<close>
  (\<^verbatim>\<open>dbQuery, _ = ...\<close>) and goes on with the nil query that came with it.
\<close>

definition buildMessagesSelectQuery ::
  "AppState \<Rightarrow> SearchPayload \<Rightarrow> (error + SelectQuery option) \<times> call list" where
  "buildMessagesSelectQuery appState query =
     (let dbQuery =
        ColumnExpr (ColumnExpr (ColumnExpr (ColumnExpr (ColumnExpr (ColumnExpr
          (JoinOn (TableExpr NewSelect ''message_embedding AS me'')
             ''JOIN message AS m'' ''me.message_uuid = m.uuid'')
          ''m.uuid AS message__uuid'' [])
          ''m.created_at AS message__created_at'' [])
          ''m.role AS message__role'' [])
          ''m.content AS message__content'' [])
          ''m.metadata AS message__metadata'' [])
          ''m.token_count AS message__token_count'' []
      in
      if Text query \<noteq> '''' then
        (case addMessagesVectorColumn appState dbQuery (Text query) of
           (Inl err, calls) \<Rightarrow> (if is_panic err then Inl err else Inr None, calls)
         | (Inr q, calls) \<Rightarrow> (Inr (Some q), calls))
      else (Inr (Some dbQuery), []))"

text \<open>
  \<open>addMessageDateFilters\<close>. The builder wraps the query pointer; \<^verbatim>\<open>Where\<close> on a builder
  around a nil query panics.
\<close>

definition addMessageDateFilters :: "SelectQuery option \<Rightarrow> metadata \<Rightarrow> error + SelectQuery option" where
  "addMessageDateFilters qb m =
     and_then
       (case map_of m ''start_date'' of
          Some startDate \<Rightarrow>
            and_then (deref qb) (\<lambda>q. Inr (Some (Where_q q ''m.created_at >= ?'' [ArgJSON startDate])))
        | None \<Rightarrow> Inr qb)
       (\<lambda>qb.
          case map_of m ''end_date'' of
            Some endDate \<Rightarrow>
              and_then (deref qb) (\<lambda>q. Inr (Some (Where_q q ''m.created_at <= ?'' [ArgJSON endDate])))
          | None \<Rightarrow> Inr qb)"

text \<open>
  \<open>parseJSONQuery\<close> on the builder of a query pointer. Around a nil query the first
  builder call panics; a root with no path and no children makes none.
\<close>

definition parseJSONQuery_on :: "SelectQuery option \<Rightarrow> JSONQuery \<Rightarrow> error + SelectQuery option" where
  "parseJSONQuery_on qb jq =
     (case qb of
        Some q \<Rightarrow>
          (case parseJSONQuery (q_where q) jq False of
             Inl e \<Rightarrow> Inl e
           | Inr ws \<Rightarrow> Inr (Some (q\<lparr>q_where := ws\<rparr>)))
      | None \<Rightarrow>
          (case jq of
             JSONQuery p ands ors \<Rightarrow>
               if p \<noteq> '''' \<or> length ands > 0 \<or> length ors > 0
               then Inl (Panic ''nil pointer dereference'')
               else Inr None
           | NilQuery \<Rightarrow> Inl (Panic ''nil pointer dereference'')))"

text \<open>
  \<open>applyMessagesMetadataFilter\<close>. \<open>Unmarshal\<close> is encoding/json's answer for the value
  under \<^verbatim>\<open>"where"\<close> (marshalled, then unmarshalled into a \<^verbatim>\<open>JSONQuery\<close>); marshalling a
  decoded JSON value does not fail.
\<close>

definition applyMessagesMetadataFilter ::
  "(json \<Rightarrow> error + JSONQuery) \<Rightarrow> SelectQuery option \<Rightarrow> metadata \<Rightarrow> error + SelectQuery option" where
  "applyMessagesMetadataFilter Unmarshal dbQuery m =
     and_then
       (case map_of m ''where'' of
          Some w \<Rightarrow>
            (case Unmarshal w of
               Inl err \<Rightarrow> Inl (StorageError ''error unmarshalling metadata'' (Some err))
             | Inr jq \<Rightarrow> parseJSONQuery_on dbQuery jq)
        | None \<Rightarrow> Inr dbQuery)
       (\<lambda>qb. addMessageDateFilters qb m)"

definition addMessagesSortQuery :: "string \<Rightarrow> SelectQuery \<Rightarrow> SelectQuery" where
  "addMessagesSortQuery searchText dbQuery =
     (if searchText \<noteq> '''' then Order dbQuery ''dist ASC'' else Order dbQuery ''m.created_at DESC'')"

definition filterValidMessageSearchResults ::
  "MemorySearchResult list \<Rightarrow> metadata \<Rightarrow> MemorySearchResult list" where
  "filterValidMessageSearchResults results m =
     filter (\<lambda>result. \<not> IsNaN (Dist result) \<or> length m > 0) results"

text \<open>
  \<open>searchMessages\<close> returns its result and the calls it sent out. \<open>prepare_messages_query\<close>
  is its body from \<open>buildMessagesSelectQuery\<close> to \<^verbatim>\<open>Limit\<close>, the query it hands to the scan.
\<close>

definition prepare_messages_query ::
  "(json \<Rightarrow> error + JSONQuery) \<Rightarrow> string \<Rightarrow> SearchPayload \<Rightarrow> int \<Rightarrow> SelectQuery option \<Rightarrow> error + SelectQuery" where
  "prepare_messages_query Unmarshal sessionID query limit dbQuery0 =
     and_then
       (if length (Metadata query) > 0 then
          (case applyMessagesMetadataFilter Unmarshal dbQuery0 (Metadata query) of
             Inl err \<Rightarrow>
               Inl (if is_panic err then err
                    else StorageError ''error applying metadata filter'' (Some err))
           | Inr q \<Rightarrow> Inr q)
        else Inr dbQuery0)
       (\<lambda>dbQuery.
          and_then (deref dbQuery)
            (\<lambda>q.
               let q = Where_q q ''m.session_id = ?'' [ArgStr sessionID];
                   q = Where_q q ''m.deleted_at IS NULL'' [];
                   q = addMessagesSortQuery (Text query) q;
                   limit = (if limit = 0 then defaultSearchLimit else limit)
               in Inr (Limit q limit)))"

definition searchMessages ::
  "(json \<Rightarrow> error + JSONQuery) \<Rightarrow> AppState option \<Rightarrow> bunDB \<Rightarrow> string \<Rightarrow> SearchPayload option \<Rightarrow> int
     \<Rightarrow> (error + MemorySearchResult list) \<times> call list" where
  "searchMessages Unmarshal appState db sessionID query limit =
     (case (query, appState) of
        (Some query, Some appState) \<Rightarrow>
          if Text query = '''' \<and> length (Metadata query) = 0 then
            (Inl (StorageError ''empty query'' (Some (ErrorsNew ''empty query''))), [])
          else
            (case buildMessagesSelectQuery appState query of
               (Inl err, calls) \<Rightarrow> (Inl err, calls)
             | (Inr dbQuery0, calls) \<Rightarrow>
                 (case prepare_messages_query Unmarshal sessionID query limit dbQuery0 of
                    Inl err \<Rightarrow> (Inl err, calls)
                  | Inr dbQuery \<Rightarrow>
                      (case Scan db dbQuery of
                         Inl err \<Rightarrow>
                           (Inl (StorageError ''memory searchMessages failed'' (Some err)),
                            calls @ [CallScan dbQuery])
                       | Inr results \<Rightarrow>
                           (Inr (filterValidMessageSearchResults results (Metadata query)),
                            calls @ [CallScan dbQuery]))))
      | _ \<Rightarrow> (Inl (StorageError ''nil query or appState received'' None), []))"

text \<open>The six columns every message query selects.\<close>

definition message_columns :: "(string \<times> sql_arg list) list" where
  "message_columns =
     [(''m.uuid AS message__uuid'', []),
      (''m.created_at AS message__created_at'', []),
      (''m.role AS message__role'', []),
      (''m.content AS message__content'', []),
      (''m.metadata AS message__metadata'', []),
      (''m.token_count AS message__token_count'', [])]"

section \<open>Document search\<close>

definition DefaultDocumentSearchLimit :: int where
  "DefaultDocumentSearchLimit = 20"

record DocumentCollection =
  TableName :: string
  IsIndexed :: bool
  ProbeCount :: int

text \<open>
  The operation, without its context and database handle. Its payload and collection
  pointers are not nil.
\<close>

record documentSearchOperation =
  dso_appState :: AppState
  dso_searchPayload :: SearchPayload
  dso_collection :: DocumentCollection
  dso_queryVector :: "vector option"
  dso_limit :: int
  dso_withMMR :: bool

definition newDocumentSearchOperation ::
  "AppState \<Rightarrow> SearchPayload \<Rightarrow> DocumentCollection \<Rightarrow> int \<Rightarrow> bool \<Rightarrow> documentSearchOperation" where
  "newDocumentSearchOperation appState searchPayload collection limit withMMR =
     (let limit = (if limit \<le> 0 then DefaultDocumentSearchLimit else limit)
      in \<lparr>dso_appState = appState, dso_searchPayload = searchPayload, dso_collection = collection,
          dso_queryVector = None, dso_limit = limit, dso_withMMR = withMMR\<rparr>)"

text \<open>
  \<^verbatim>\<open>db.NewSelect().Model(m).ModelTableExpr(name)\<close>. The type of \<^verbatim>\<open>m\<close>,
  \<^verbatim>\<open>models.DocumentSearchResult\<close>, is declared outside these sources; \<open>soft_delete\<close> says
  whether that declaration marks a soft-delete column.
\<close>

definition Model_q :: "SelectQuery \<Rightarrow> bool \<Rightarrow> SelectQuery" where
  "Model_q q soft_delete = q\<lparr>q_model_soft_delete := soft_delete\<rparr>"

definition ModelTableExpr :: "SelectQuery \<Rightarrow> string \<Rightarrow> SelectQuery" where
  "ModelTableExpr q t = q\<lparr>q_table := t\<rparr>"

text \<open>\<open>getDocQueryVector\<close>: the vector, the operation with its \<open>queryVector\<close> set, the calls.\<close>

definition getDocQueryVector ::
  "documentSearchOperation \<Rightarrow> string \<Rightarrow> (error + vector) \<times> documentSearchOperation \<times> call list" where
  "getDocQueryVector dso queryText =
     (let documentType = ''document'' in
      case GetDocumentEmbeddingModel (dso_appState dso) documentType of
        Inl err \<Rightarrow>
          (Inl (Wrapped ''failed to get document embedding model'' err), dso, [CallGetEmbeddingModel])
      | Inr model \<Rightarrow>
          (case EmbedDocumentTexts (dso_appState dso) model documentType [queryText] of
             Inl err \<Rightarrow>
               (Inl (Wrapped ''failed to embed query'' err), dso,
                [CallGetEmbeddingModel, CallEmbedTexts model [queryText]])
           | Inr e \<Rightarrow>
               (case e of
                  [] \<Rightarrow>
                    (Inl (Panic ''index out of range''), dso,
                     [CallGetEmbeddingModel, CallEmbedTexts model [queryText]])
                | e0 # _ \<Rightarrow>
                    (Inr e0, dso\<lparr>dso_queryVector := Some e0\<rparr>,
                     [CallGetEmbeddingModel, CallEmbedTexts model [queryText]]))))"

definition applyDocsMetadataFilter ::
  "(json \<Rightarrow> error + JSONQuery) \<Rightarrow> SelectQuery \<Rightarrow> metadata \<Rightarrow> error + SelectQuery" where
  "applyDocsMetadataFilter Unmarshal query m =
     (case map_of m ''where'' of
        Some w \<Rightarrow>
          (case Unmarshal w of
             Inl err \<Rightarrow> Inl (Wrapped ''error unmarshalling metadata'' err)
           | Inr jq \<Rightarrow>
               (case parseJSONQuery (q_where query) jq False of
                  Inl e \<Rightarrow> Inl e
                | Inr ws \<Rightarrow> Inr (query\<lparr>q_where := ws\<rparr>)))
      | None \<Rightarrow> Inr query)"

text \<open>
  Go's \<^verbatim>\<open>int\<close> has 64 bits here: \<^verbatim>\<open>limit *= 2\<close> wraps around.
\<close>

definition times2_int64 :: "int \<Rightarrow> int" where
  "times2_int64 n = signed_take_bit 63 (n * 2)"

text \<open>
  \<open>buildQuery\<close>. The local \<^verbatim>\<open>limit\<close> is doubled under MMR; the call that follows is
  \<^verbatim>\<open>query.Limit(dso.limit)\<close>.
\<close>

definition buildQuery ::
  "(json \<Rightarrow> error + JSONQuery) \<Rightarrow> bool \<Rightarrow> documentSearchOperation
     \<Rightarrow> (error + SelectQuery) \<times> documentSearchOperation \<times> call list" where
  "buildQuery Unmarshal soft_delete dso =
     (let query = ModelTableExpr (Model_q NewSelect soft_delete) (TableName (dso_collection dso));
          (r, dso', calls) =
            (if Text (dso_searchPayload dso) \<noteq> '''' then
               (case getDocQueryVector dso (Text (dso_searchPayload dso)) of
                  (Inl err, dso', calls) \<Rightarrow>
                    (Inl (if is_panic err then err else Wrapped ''error getting query vector'' err),
                     dso', calls)
                | (Inr v, dso', calls) \<Rightarrow>
                    (Inr (ColumnExpr query ''1 - (embedding <=> ?) AS dist'' [ArgVector v]), dso', calls))
             else (Inr query, dso, []))
      in
      (and_then r
         (\<lambda>query.
            and_then
              (if length (Metadata (dso_searchPayload dso')) > 0 then
                 (case applyDocsMetadataFilter Unmarshal query (Metadata (dso_searchPayload dso')) of
                    Inl err \<Rightarrow>
                      Inl (if is_panic err then err
                           else StorageError ''error applying metadata filter'' (Some err))
                  | Inr q \<Rightarrow> Inr q)
               else Inr query)
              (\<lambda>query.
                 let limit = dso_limit dso';
                     limit = (if dso_withMMR dso' then times2_int64 limit else limit);
                     query = Limit query (dso_limit dso')
                 in Inr (if Text (dso_searchPayload dso') \<noteq> '''' then Order query ''dist ASC'' else query))),
       dso', calls))"

section \<open>Metadata update of a user\<close>

record User =
  UserID :: string
  Email :: string
  FirstName :: string
  LastName :: string
  UserMetadata :: "metadata option"

text \<open>
  \<^verbatim>\<open>UpdateUserRequest\<close>, \<^verbatim>\<open>UserSchema\<close> and \<^verbatim>\<open>models.User\<close> carry the same five fields
  as far as this code copies them: one record \<open>User\<close> stands for the three. A nil metadata
  map is \<open>None\<close>; an empty map that is not nil is \<open>Some []\<close>.
\<close>

text \<open>
  The store behind \<^verbatim>\<open>UserStoreDAO\<close>: the rows of table \<^verbatim>\<open>users\<close>, the advisory locks
  held, the calls received so far, the calls it answers with an error, and the hash of
  a lock key.
\<close>

datatype store_call =
    AcquireAdvisoryLock string
  | ReleaseAdvisoryLock "64 word"
  | SelectMetadata string string
  | ExecUpdate string
  | SelectUser string

record store =
  users :: "User list"
  held :: "64 word list"
  calls :: "store_call list"
  fails :: "store_call \<Rightarrow> error option"
  lock_hash :: "string \<Rightarrow> 64 word"

fun is_lock_call :: "store_call \<Rightarrow> bool" where
  "is_lock_call (AcquireAdvisoryLock _) = True"
| "is_lock_call (ReleaseAdvisoryLock _) = True"
| "is_lock_call _ = False"

definition received :: "store \<Rightarrow> store_call \<Rightarrow> store" where
  "received db c = db\<lparr>calls := calls db @ [c]\<rparr>"

text \<open>
  Modelled from the spec: \<^verbatim>\<open>acquireAdvisoryLock\<close> and \<^verbatim>\<open>releaseAdvisoryLock\<close> are not in
  the sources. The spec's store offers a named advisory lock, acquired by string key,
  which is hashed into a fixed-width integer token, and released by token; acquiring
  fails when the store is unavailable.
\<close>

definition acquireAdvisoryLock :: "store \<Rightarrow> string \<Rightarrow> (error + 64 word) \<times> store" where
  "acquireAdvisoryLock db key =
     (let db = received db (AcquireAdvisoryLock key) in
      case fails db (AcquireAdvisoryLock key) of
        Some err \<Rightarrow> (Inl err, db)
      | None \<Rightarrow> (Inr (lock_hash db key), db\<lparr>held := lock_hash db key # held db\<rparr>))"

definition releaseAdvisoryLock :: "store \<Rightarrow> 64 word \<Rightarrow> error option \<times> store" where
  "releaseAdvisoryLock db lockID =
     (let db = received db (ReleaseAdvisoryLock lockID) in
      case fails db (ReleaseAdvisoryLock lockID) of
        Some err \<Rightarrow> (Some err, db)
      | None \<Rightarrow> (None, db\<lparr>held := remove1 lockID (held db)\<rparr>))"

text \<open>
  Modelled from the spec: \<^verbatim>\<open>mergeMetadata\<close> is not in the sources. The spec's deep merge
  rule: for every key of the update document, if the existing document has a non-empty
  value for that key and the update provides an empty or zero value, the existing value
  is kept unless the caller is privileged; for all other keys the update value replaces
  the existing one or is inserted; nested objects merge recursively by the same rule.
  The non-empty test is a per-variant predicate on the value.
\<close>

fun is_zero :: "json \<Rightarrow> bool" where
  "is_zero JNull = True"
| "is_zero (JBool b) = (\<not> b)"
| "is_zero (JNum n) = (n = 0)"
| "is_zero (JStr s) = (s = '''')"
| "is_zero (JList xs) = (xs = [])"
| "is_zero (JObj m) = (m = [])"

text \<open>
  Modelled from the spec: the update value "replaces or is inserted". \<open>put\<close> replaces the
  entry of a key where it stands and appends the entry of a new key.
\<close>

fun put :: "string \<Rightarrow> json \<Rightarrow> metadata \<Rightarrow> metadata" where
  "put k v [] = [(k, v)]"
| "put k v ((k', v') # m) = (if k' = k then (k, v) # m else (k', v') # put k v m)"

text \<open>
  Modelled from the spec: the deep merge rule itself, \<open>mergeValue\<close> for one key that both
  documents have and \<open>deepMerge\<close> for the keys of the update document in turn.
\<close>

fun mergeValue :: "bool \<Rightarrow> json \<Rightarrow> json \<Rightarrow> json"
  and deepMerge :: "bool \<Rightarrow> metadata \<Rightarrow> metadata \<Rightarrow> metadata"
where
  "mergeValue privileged old (JObj u) =
     (if is_zero (JObj u) \<and> \<not> is_zero old \<and> \<not> privileged then old
      else (case old of JObj e \<Rightarrow> JObj (deepMerge privileged e u) | _ \<Rightarrow> JObj u))"
| "mergeValue privileged old new =
     (if is_zero new \<and> \<not> is_zero old \<and> \<not> privileged then old else new)"
| "deepMerge privileged existing [] = existing"
| "deepMerge privileged existing ((k, v) # rest) =
     (let merged = (case map_of existing k of None \<Rightarrow> v | Some old \<Rightarrow> mergeValue privileged old v)
      in deepMerge privileged (put k merged existing) rest)"

text \<open>
  Modelled from the spec: \<^verbatim>\<open>mergeMetadata\<close> reads the current document of the entity
  (\<^verbatim>\<open>NotFound\<close> when there is none) and deep-merges the update into it.
\<close>

definition mergeMetadata ::
  "store \<Rightarrow> string \<Rightarrow> string \<Rightarrow> string \<Rightarrow> metadata \<Rightarrow> bool \<Rightarrow> (error + metadata) \<times> store" where
  "mergeMetadata db schemaKey schemaValue tableName m isPrivileged =
     (let db = received db (SelectMetadata tableName schemaValue) in
      case fails db (SelectMetadata tableName schemaValue) of
        Some err \<Rightarrow> (Inl err, db)
      | None \<Rightarrow>
          (case find (\<lambda>u. UserID u = schemaValue) (users db) of
             None \<Rightarrow> (Inl (NotFoundError (tableName @ '' '' @ schemaValue)), db)
           | Some u \<Rightarrow>
               (Inr (deepMerge isPrivileged (case UserMetadata u of None \<Rightarrow> [] | Some e \<Rightarrow> e) m), db)))"

text \<open>
  \<open>Get\<close> and \<open>updateUser\<close>. The update lists four columns and asks bun to omit the zero
  ones (\<^verbatim>\<open>OmitZero\<close>): an empty string and a nil map leave their column as it is. An
  error of \<^verbatim>\<open>Exec\<close> or of the select, whatever its cause, is what \<open>fails\<close> answers for
  the call.
\<close>

definition Get :: "store \<Rightarrow> string \<Rightarrow> (error + User) \<times> store" where
  "Get db userID =
     (let db = received db (SelectUser userID) in
      case fails db (SelectUser userID) of
        Some err \<Rightarrow> (Inl err, db)
      | None \<Rightarrow>
          (case find (\<lambda>u. UserID u = userID) (users db) of
             None \<Rightarrow> (Inl (NotFoundError (''user '' @ userID)), db)
           | Some u \<Rightarrow> (Inr u, db)))"

definition omit_zero_update :: "User \<Rightarrow> User \<Rightarrow> User" where
  "omit_zero_update new old =
     old\<lparr>Email := (if Email new = '''' then Email old else Email new),
         FirstName := (if FirstName new = '''' then FirstName old else FirstName new),
         LastName := (if LastName new = '''' then LastName old else LastName new),
         UserMetadata := (if UserMetadata new = None then UserMetadata old else UserMetadata new)\<rparr>"

definition updateUser :: "store \<Rightarrow> User \<Rightarrow> (error + User) \<times> store" where
  "updateUser db user =
     (let db = received db (ExecUpdate (UserID user)) in
      case fails db (ExecUpdate (UserID user)) of
        Some err \<Rightarrow> (Inl err, db)
      | None \<Rightarrow>
          (let rowsAffected = length (filter (\<lambda>u. UserID u = UserID user) (users db));
               db = db\<lparr>users := map (\<lambda>u. if UserID u = UserID user then omit_zero_update user u else u) (users db)\<rparr>
           in
           if rowsAffected = 0 then (Inl (NotFoundError (''user '' @ UserID user)), db)
           else Get db (UserID user)))"

text \<open>
  \<open>Update\<close>. The deferred release runs when the function returns, whatever it returns;
  an error of the release is logged and dropped.
\<close>

definition Update :: "store \<Rightarrow> User \<Rightarrow> bool \<Rightarrow> (error + User) \<times> store" where
  "Update db user isPrivileged =
     (if UserID user = '''' then (Inl (ErrorsNew ''UserID cannot be empty''), db)
      else
        case UserMetadata user of
          None \<Rightarrow> updateUser db user
        | Some m \<Rightarrow>
            (case acquireAdvisoryLock db (UserID user) of
               (Inl err, db) \<Rightarrow> (Inl (Wrapped ''failed to acquire advisory lock'' err), db)
             | (Inr lockID, db) \<Rightarrow>
                 (let (result, db) =
                    (case mergeMetadata db ''user_id'' (UserID user) ''users'' m isPrivileged of
                       (Inl err, db) \<Rightarrow> (Inl (Wrapped ''failed to merge metadata'' err), db)
                     | (Inr mergedMetadata, db) \<Rightarrow>
                         updateUser db (user\<lparr>UserMetadata := Some mergedMetadata\<rparr>))
                  in (result, snd (releaseAdvisoryLock db lockID)))))"

section \<open>Concrete inputs\<close>

text \<open>
  An application state whose embedding calls succeed, a store that answers every scan
  with one row of distance 0.5 and one row whose distance is a NaN, a decoder for
  single-leaf filters, a collection and a table row.
\<close>

definition appState0 :: AppState where
  "appState0 =
     \<lparr>GetMessageEmbeddingModel = Inr ''model'',
      EmbedTexts = (\<lambda>model texts. Inr [[1, 2, 3]]),
      GetDocumentEmbeddingModel = (\<lambda>documentType. Inr ''model''),
      EmbedDocumentTexts = (\<lambda>model documentType texts. Inr [[4, 5, 6]])\<rparr>"

definition db0 :: bunDB where
  "db0 =
     \<lparr>Scan = (\<lambda>q. Inr [\<lparr>message_uuid = ''m1'', Dist = 0x3FE0000000000000\<rparr>,
                        \<lparr>message_uuid = ''m2'', Dist = 0x7FF8000000000000\<rparr>])\<rparr>"

definition Unmarshal0 :: "json \<Rightarrow> error + JSONQuery" where
  "Unmarshal0 w =
     (case w of
        JObj [(k, JStr p)] \<Rightarrow>
          if k = ''jsonpath'' then Inr (JSONQuery p [] []) else Inl (External ''cannot unmarshal'')
      | _ \<Rightarrow> Inl (External ''cannot unmarshal''))"

definition collection0 :: DocumentCollection where
  "collection0 = \<lparr>TableName = ''docstore_c1_3'', IsIndexed = False, ProbeCount = 1\<rparr>"

definition row0 :: row where
  "row0 = \<lparr>session_id = ''s1'', created_at = 100, deleted_at = None, metadata_paths = [''$.a'']\<rparr>"

text \<open>
  A store with one user whose metadata is \<^verbatim>\<open>{"a":1,"b":2}\<close>, and an update of that user
  with the document \<^verbatim>\<open>{"a":null,"c":3}\<close>.
\<close>

definition store0 :: store where
  "store0 =
     \<lparr>users = [\<lparr>UserID = ''u1'', Email = ''email'', FirstName = '''', LastName = '''',
                 UserMetadata = Some [(''a'', JNum 1), (''b'', JNum 2)]\<rparr>],
      held = [], calls = [], fails = (\<lambda>c. None), lock_hash = (\<lambda>key. 42)\<rparr>"

text \<open>The same store, answering one given call with an error.\<close>

definition store_failing :: "store_call \<Rightarrow> store" where
  "store_failing c = store0\<lparr>fails := (\<lambda>c'. if c' = c then Some (External ''store failure'') else None)\<rparr>"

definition update0 :: User where
  "update0 = \<lparr>UserID = ''u1'', Email = '''', FirstName = ''bob'', LastName = '''',
              UserMetadata = Some [(''a'', JNull), (''c'', JNum 3)]\<rparr>"

section \<open>The compiled predicate\<close>

lemma parse_clauses:
  "nil_free jq \<Longrightarrow> parseJSONQuery qb jq isOr = Inr (qb @ clauses jq isOr)"
  "list_all nil_free jqs \<Longrightarrow>
     parseJSONQuery_range qq jqs isOr = Inr (qq @ concat (map (\<lambda>c. clauses c isOr) jqs))"
proof (induction qb jq isOr and qq jqs isOr rule: parseJSONQuery_parseJSONQuery_range.induct)
  case (1 qb isOr)
  then show ?case by simp
next
  case (2 qb JSONPath And Or isOr)
  then show ?case
    by (auto simp: Let_def leaf_clause_def Where_qb_def WhereOr_def WhereGroup_def)
next
  case (3 qq isOr)
  then show ?case by simp
next
  case (4 qq subQuery rest isOr)
  then show ?case by simp
qed

lemma parse_Inr_nil_free:
  "parseJSONQuery qb jq isOr = Inr ws \<Longrightarrow> nil_free jq"
  "parseJSONQuery_range qq jqs isOr = Inr ws \<Longrightarrow> list_all nil_free jqs"
proof (induction qb jq isOr and qq jqs isOr arbitrary: ws and ws rule: parseJSONQuery_parseJSONQuery_range.induct)
  case (1 qb isOr)
  then show ?case by simp
next
  case (2 qb JSONPath And Or isOr)
  then show ?case
    by (fastforce simp: Let_def split: sum.splits if_splits)
next
  case (3 qq isOr)
  then show ?case by simp
next
  case (4 qq subQuery rest isOr)
  then show ?case by (auto split: sum.splits)
qed

lemma matches_nil_free: "matches r jq \<Longrightarrow> nil_free jq"
  using parse_Inr_nil_free(1)[of "[]" jq False] by (auto simp: matches_def split: sum.splits)

lemma matches_clauses: "nil_free jq \<Longrightarrow> matches r jq = where_holds r (clauses jq False)"
  by (simp add: matches_def parse_clauses)

lemma or_of_ands_all_and:
  "\<forall>x\<in>set xs. fst x \<noteq> '' OR '' \<Longrightarrow> or_of_ands acc (xs @ ys) = or_of_ands (acc \<and> (\<forall>x\<in>set xs. snd x)) ys"
  by (induction xs arbitrary: acc) auto

lemma Sep_WhereGroup: "w \<in> set (WhereGroup [] '' AND '' g) \<Longrightarrow> Sep w = '' AND ''"
  by (auto simp: WhereGroup_def split: if_splits)

lemma Sep_clauses_False: "w \<in> set (clauses jq False) \<Longrightarrow> Sep w = '' AND ''"
  by (cases jq) (auto simp: leaf_clause_def dest: Sep_WhereGroup split: if_splits)

lemma WhereGroup_Nil: "WhereGroup [] sep [] = []"
  by (simp add: WhereGroup_def)

lemma sql_bool_all_and:
  "\<forall>x\<in>set xs. fst x \<noteq> '' OR '' \<Longrightarrow> sql_bool xs = (\<forall>x\<in>set xs. snd x)"
proof (cases xs)
  case Nil
  then show ?thesis by (simp add: sql_bool_def)
next
  case (Cons x rest)
  assume a: "\<forall>x\<in>set xs. fst x \<noteq> '' OR ''"
  with Cons have "\<forall>x\<in>set rest. fst x \<noteq> '' OR ''" by simp
  from or_of_ands_all_and[OF this, of "snd x" "[]"] Cons show ?thesis
    by (cases x) (simp add: sql_bool_def)
qed

lemma where_holds_all_and:
  "\<forall>w\<in>set ws. Sep w = '' AND '' \<Longrightarrow> where_holds r ws = (\<forall>w\<in>set ws. entry_holds r w)"
proof -
  assume a: "\<forall>w\<in>set ws. Sep w = '' AND ''"
  then have "\<forall>x\<in>set (map (\<lambda>w. (Sep w, entry_holds r w)) ws). fst x \<noteq> '' OR ''" by auto
  from sql_bool_all_and[OF this] show ?thesis by (simp add: where_holds_def)
qed

lemma where_holds_WhereGroup: "where_holds r (WhereGroup [] sep g) = where_holds r g"
  by (simp add: WhereGroup_def where_holds_def sql_bool_def)

lemma where_holds_concat_False:
  "where_holds r (concat (map (\<lambda>c. clauses c False) cs)) = (\<forall>c\<in>set cs. where_holds r (clauses c False))"
proof -
  have s: "\<forall>w\<in>set (concat (map (\<lambda>c. clauses c False) cs)). Sep w = '' AND ''"
    by (auto dest: Sep_clauses_False)
  have "\<And>c. where_holds r (clauses c False) = (\<forall>w\<in>set (clauses c False). entry_holds r w)"
    by (rule where_holds_all_and) (auto dest: Sep_clauses_False)
  with where_holds_all_and[OF s] show ?thesis by auto
qed

lemma matches_and_only:
  "matches r (JSONQuery '''' cs []) = (\<forall>c\<in>set cs. matches r c)"
proof (cases "list_all nil_free cs")
  case True
  then have "\<forall>c\<in>set cs. matches r c = where_holds r (clauses c False)"
    by (auto simp: list_all_iff matches_clauses)
  moreover from True have "matches r (JSONQuery '''' cs []) =
      where_holds r (concat (map (\<lambda>c. clauses c False) cs))"
    by (simp add: matches_clauses leaf_clause_def where_holds_WhereGroup WhereGroup_def[of "[]" _ "[]"])
  ultimately show ?thesis by (simp add: where_holds_concat_False)
next
  case False
  then obtain c where "c \<in> set cs" "\<not> nil_free c" by (auto simp: list_all_iff)
  then have "\<not> (\<forall>c\<in>set cs. matches r c)" using matches_nil_free by blast
  moreover from False have "\<not> matches r (JSONQuery '''' cs [])"
    using matches_nil_free[of r "JSONQuery '''' cs []"] by auto
  ultimately show ?thesis by simp
qed

lemma matches_empty: "matches r (JSONQuery '''' [] [])"
  by (simp add: matches_def where_holds_def sql_bool_def)

lemma clauses_True_leaf:
  "has_leaf jq \<Longrightarrow> \<exists>q a rest. clauses jq True = Cond '' OR '' q a # rest \<and> (\<forall>w\<in>set rest. Sep w = '' AND '')
      \<and> clauses jq False = Cond '' AND '' q a # rest"
  by (cases jq) (auto simp: leaf_clause_def dest: Sep_WhereGroup)

lemma or_of_ands_blocks:
  "list_all has_leaf cs \<Longrightarrow>
   or_of_ands acc (map (\<lambda>w. (Sep w, entry_holds r w)) (concat (map (\<lambda>c. clauses c True) cs)))
     = (acc \<or> (\<exists>c\<in>set cs. where_holds r (clauses c False)))"
proof (induction cs arbitrary: acc)
  case Nil
  then show ?case by simp
next
  case (Cons c cs)
  then have hl: "has_leaf c" and rest: "list_all has_leaf cs" by simp_all
  from clauses_True_leaf[OF hl] obtain q a tl where
    t: "clauses c True = Cond '' OR '' q a # tl" and s: "\<forall>w\<in>set tl. Sep w = '' AND ''"
    and f: "clauses c False = Cond '' AND '' q a # tl" by blast
  let ?f = "\<lambda>w. (Sep w, entry_holds r w)"
  have s': "\<forall>x\<in>set (map ?f tl). fst x \<noteq> '' OR ''" using s by auto
  have semc: "where_holds r (clauses c False) = (cond_holds r q a \<and> (\<forall>w\<in>set tl. entry_holds r w))"
    using where_holds_all_and[of "clauses c False" r] s by (simp add: f)
  have "or_of_ands acc (map ?f (concat (map (\<lambda>c. clauses c True) (c # cs))))
      = (acc \<or> or_of_ands (cond_holds r q a) (map ?f tl @ map ?f (concat (map (\<lambda>c. clauses c True) cs))))"
    by (simp add: t)
  also have "\<dots> = (acc \<or> or_of_ands (cond_holds r q a \<and> (\<forall>x\<in>set (map ?f tl). snd x))
       (map ?f (concat (map (\<lambda>c. clauses c True) cs))))"
    by (simp only: or_of_ands_all_and[OF s'])
  also have "\<dots> = (acc \<or> (where_holds r (clauses c False) \<or> (\<exists>c\<in>set cs. where_holds r (clauses c False))))"
    by (simp add: Cons.IH[OF rest] semc)
  finally show ?case by auto
qed

lemma where_holds_concat_True:
  assumes "cs \<noteq> []" "list_all has_leaf cs"
  shows "where_holds r (concat (map (\<lambda>c. clauses c True) cs)) = (\<exists>c\<in>set cs. where_holds r (clauses c False))"
proof -
  from assms obtain c cs' where cs: "cs = c # cs'" by (cases cs) auto
  with assms have hl: "has_leaf c" and rest: "list_all has_leaf cs'" by simp_all
  from clauses_True_leaf[OF hl] obtain q a tl where
    t: "clauses c True = Cond '' OR '' q a # tl" and s: "\<forall>w\<in>set tl. Sep w = '' AND ''"
    and f: "clauses c False = Cond '' AND '' q a # tl" by blast
  let ?f = "\<lambda>w. (Sep w, entry_holds r w)"
  have s': "\<forall>x\<in>set (map ?f tl). fst x \<noteq> '' OR ''" using s by auto
  have semc: "where_holds r (clauses c False) = (cond_holds r q a \<and> (\<forall>w\<in>set tl. entry_holds r w))"
    using where_holds_all_and[of "clauses c False" r] s by (simp add: f)
  have "where_holds r (concat (map (\<lambda>c. clauses c True) cs))
      = or_of_ands (cond_holds r q a) (map ?f tl @ map ?f (concat (map (\<lambda>c. clauses c True) cs')))"
    by (simp add: cs t where_holds_def sql_bool_def)
  also have "\<dots> = or_of_ands (cond_holds r q a \<and> (\<forall>x\<in>set (map ?f tl). snd x))
       (map ?f (concat (map (\<lambda>c. clauses c True) cs')))"
    by (simp only: or_of_ands_all_and[OF s'])
  also have "\<dots> = (where_holds r (clauses c False) \<or> (\<exists>c\<in>set cs'. where_holds r (clauses c False)))"
    by (simp add: or_of_ands_blocks[OF rest] semc)
  finally show ?thesis by (simp add: cs)
qed

lemma matches_or_only:
  assumes "cs \<noteq> []" "list_all nil_free cs" "list_all has_leaf cs"
  shows "matches r (JSONQuery '''' [] cs) = (\<exists>c\<in>set cs. matches r c)"
proof -
  from assms(2) have "\<forall>c\<in>set cs. matches r c = where_holds r (clauses c False)"
    by (auto simp: list_all_iff matches_clauses)
  moreover from assms(2) have "matches r (JSONQuery '''' [] cs) =
      where_holds r (concat (map (\<lambda>c. clauses c True) cs))"
    by (simp add: matches_clauses leaf_clause_def where_holds_WhereGroup WhereGroup_def[of "[]" _ "[]"])
  ultimately show ?thesis by (simp add: where_holds_concat_True[OF assms(1,3)])
qed

lemma matches_conjoined:
  "matches r (JSONQuery p ands ors) =
     (matches r (JSONQuery p [] []) \<and> matches r (JSONQuery '''' ands []) \<and> matches r (JSONQuery '''' [] ors))"
proof (cases "list_all nil_free ands \<and> list_all nil_free ors")
  case True
  have a: "\<And>jq. nil_free jq \<Longrightarrow> matches r jq = (\<forall>w\<in>set (clauses jq False). entry_holds r w)"
    by (simp add: matches_clauses where_holds_all_and Sep_clauses_False)
  from True show ?thesis
    by (subst (1 2 3 4) a) (auto simp: leaf_clause_def WhereGroup_Nil)
next
  case False
  then have "\<not> matches r (JSONQuery p ands ors)"
    using matches_nil_free[of r "JSONQuery p ands ors"] by auto
  moreover from False have "\<not> matches r (JSONQuery '''' ands []) \<or> \<not> matches r (JSONQuery '''' [] ors)"
    using matches_nil_free[of r "JSONQuery '''' ands []"] matches_nil_free[of r "JSONQuery '''' [] ors"]
    by auto
  ultimately show ?thesis by auto
qed

section \<open>The query handed to the store\<close>

lemma parse_False_shape:
  assumes "parseJSONQuery qb jq False = Inr ws"
  shows "\<exists>cl. ws = qb @ cl \<and> (\<forall>w\<in>set cl. Sep w = '' AND '')"
proof -
  from assms have "nil_free jq" by (rule parse_Inr_nil_free(1))
  with assms have "ws = qb @ clauses jq False" by (simp add: parse_clauses)
  then show ?thesis using Sep_clauses_False by blast
qed

lemma and_then_Inr: "and_then r f = Inr y \<longleftrightarrow> (\<exists>x. r = Inr x \<and> f x = Inr y)"
  by (cases r) (simp_all add: and_then_def)

lemma deref_Inr: "deref p = Inr q \<longleftrightarrow> p = Some q"
  by (cases p) (simp_all add: deref_def)

lemma parseJSONQuery_on_shape:
  assumes "parseJSONQuery_on qb jq = Inr qb'"
  shows "(qb = None \<and> qb' = None) \<or>
         (\<exists>q cl. qb = Some q \<and> qb' = Some (q\<lparr>q_where := q_where q @ cl\<rparr>) \<and> (\<forall>w\<in>set cl. Sep w = '' AND ''))"
proof (cases qb)
  case None
  with assms show ?thesis
    by (auto simp: parseJSONQuery_on_def split: JSONQuery.splits if_splits)
next
  case (Some q)
  with assms obtain ws where p: "parseJSONQuery (q_where q) jq False = Inr ws"
    and q': "qb' = Some (q\<lparr>q_where := ws\<rparr>)"
    by (auto simp: parseJSONQuery_on_def split: sum.splits)
  from parse_False_shape[OF p] Some q' show ?thesis by auto
qed

lemma addMessageDateFilters_shape:
  assumes "addMessageDateFilters qb m = Inr qb'"
  shows "(qb = None \<and> qb' = None) \<or>
         (\<exists>q cl. qb = Some q \<and> qb' = Some (q\<lparr>q_where := q_where q @ cl\<rparr>) \<and> (\<forall>w\<in>set cl. Sep w = '' AND ''))"
proof (cases qb)
  case None
  with assms show ?thesis
    by (auto simp: addMessageDateFilters_def and_then_def deref_def split: option.splits)
next
  case (Some q)
  have e: "q = q\<lparr>q_where := q_where q @ []\<rparr>" by simp
  from assms Some show ?thesis
    apply (simp add: addMessageDateFilters_def and_then_def deref_def Where_q_def Where_qb_def
        split: option.splits)
       apply (rule exI[of _ "[]"], simp)
      apply (rule exI[of _ "[Cond '' AND '' ''m.created_at <= ?'' [ArgJSON (the (map_of m ''end_date''))]]"], auto)[1]
     apply (rule exI[of _ "[Cond '' AND '' ''m.created_at >= ?'' [ArgJSON (the (map_of m ''start_date''))]]"], auto)[1]
    apply (rule exI[of _ "[Cond '' AND '' ''m.created_at >= ?'' [ArgJSON (the (map_of m ''start_date''))],
                         Cond '' AND '' ''m.created_at <= ?'' [ArgJSON (the (map_of m ''end_date''))]]"], auto)[1]
    done
qed

lemma applyMessagesMetadataFilter_shape:
  assumes "applyMessagesMetadataFilter U qb m = Inr qb'"
  shows "(qb = None \<and> qb' = None) \<or>
         (\<exists>q cl. qb = Some q \<and> qb' = Some (q\<lparr>q_where := q_where q @ cl\<rparr>) \<and> (\<forall>w\<in>set cl. Sep w = '' AND ''))"
proof -
  from assms obtain qb1 where
    s1: "(case map_of m ''where'' of
          Some w \<Rightarrow>
            (case U w of
               Inl err \<Rightarrow> Inl (StorageError ''error unmarshalling metadata'' (Some err))
             | Inr jq \<Rightarrow> parseJSONQuery_on qb jq)
        | None \<Rightarrow> Inr qb) = Inr qb1"
    and s2: "addMessageDateFilters qb1 m = Inr qb'"
    by (auto simp: applyMessagesMetadataFilter_def and_then_Inr)
  have a: "(qb = None \<and> qb1 = None) \<or>
         (\<exists>q cl. qb = Some q \<and> qb1 = Some (q\<lparr>q_where := q_where q @ cl\<rparr>) \<and> (\<forall>w\<in>set cl. Sep w = '' AND ''))"
  proof (cases "map_of m ''where''")
    case None
    with s1 have "qb1 = qb" by simp
    then show ?thesis by (cases qb) (auto intro: exI[of _ "[]"])
  next
    case (Some w)
    with s1 obtain jq where "parseJSONQuery_on qb jq = Inr qb1" by (auto split: sum.splits)
    then show ?thesis by (rule parseJSONQuery_on_shape)
  qed
  from addMessageDateFilters_shape[OF s2] a show ?thesis
  proof (elim disjE exE conjE)
    fix q cl q' cl'
    assume "qb = Some q" "qb1 = Some (q\<lparr>q_where := q_where q @ cl\<rparr>)" "\<forall>w\<in>set cl. Sep w = '' AND ''"
      "qb1 = Some q'" "qb' = Some (q'\<lparr>q_where := q_where q' @ cl'\<rparr>)" "\<forall>w\<in>set cl'. Sep w = '' AND ''"
    then have "qb = Some q \<and> qb' = Some (q\<lparr>q_where := q_where q @ (cl @ cl')\<rparr>) \<and> (\<forall>w\<in>set (cl @ cl'). Sep w = '' AND '')"
      by auto
    then show ?thesis by blast
  qed auto
qed

lemma prepare_messages_query_shape:
  assumes "prepare_messages_query U sessionID query limit qb = Inr q"
  shows "\<exists>q0 cl. qb = Some q0 \<and> (\<forall>w\<in>set cl. Sep w = '' AND '') \<and>
           q = q0\<lparr>q_where := q_where q0 @ cl @ [Cond '' AND '' ''m.session_id = ?'' [ArgStr sessionID],
                                                Cond '' AND '' ''m.deleted_at IS NULL'' []],
                  q_order := q_order q0 @ [if Text query \<noteq> '''' then ''dist ASC'' else ''m.created_at DESC''],
                  q_limit := (if limit = 0 then 10 else limit)\<rparr>"
proof -
  from assms obtain qb1 q1 where
    s1: "(if length (Metadata query) > 0 then
          (case applyMessagesMetadataFilter U qb (Metadata query) of
             Inl err \<Rightarrow>
               Inl (if is_panic err then err
                    else StorageError ''error applying metadata filter'' (Some err))
           | Inr q \<Rightarrow> Inr q)
        else Inr qb) = Inr qb1"
    and s2: "qb1 = Some q1"
    and s3: "q = Limit (addMessagesSortQuery (Text query)
                 (Where_q (Where_q q1 ''m.session_id = ?'' [ArgStr sessionID]) ''m.deleted_at IS NULL'' []))
                 (if limit = 0 then defaultSearchLimit else limit)"
    by (auto simp: prepare_messages_query_def and_then_Inr deref_Inr Let_def)
  have "\<exists>q0 cl. qb = Some q0 \<and> q1 = q0\<lparr>q_where := q_where q0 @ cl\<rparr> \<and> (\<forall>w\<in>set cl. Sep w = '' AND '')"
  proof (cases "length (Metadata query) > 0")
    case True
    with s1 have "applyMessagesMetadataFilter U qb (Metadata query) = Inr qb1"
      by (auto split: sum.splits)
    from applyMessagesMetadataFilter_shape[OF this] s2 show ?thesis by auto
  next
    case False
    with s1 s2 have "qb = Some q1" by simp
    then show ?thesis by (auto intro: exI[of _ "[]"])
  qed
  then obtain q0 cl where "qb = Some q0" "q1 = q0\<lparr>q_where := q_where q0 @ cl\<rparr>" "\<forall>w\<in>set cl. Sep w = '' AND ''"
    by blast
  with s3 show ?thesis
    by (auto simp: Limit_def addMessagesSortQuery_def Order_def Where_q_def Where_qb_def defaultSearchLimit_def
        intro!: exI[of _ cl])
qed

lemma addMessagesVectorColumn_calls:
  "CallScan q \<notin> set (snd (addMessagesVectorColumn a q0 t))"
  by (auto simp: addMessagesVectorColumn_def split: sum.splits list.splits)

lemma buildMessagesSelectQuery_calls:
  "CallScan q \<notin> set (snd (buildMessagesSelectQuery a qu))"
  by (auto simp: buildMessagesSelectQuery_def Let_def addMessagesVectorColumn_def
      split: prod.splits sum.splits list.splits if_splits)

lemma buildMessagesSelectQuery_shape:
  assumes "fst (buildMessagesSelectQuery a qu) = Inr (Some q0)"
  shows "q_where q0 = [] \<and> q_order q0 = [] \<and> \<not> q_model_soft_delete q0 \<and>
         (if Text qu = '''' then q_columns q0 = message_columns
          else (\<exists>model v vs. GetMessageEmbeddingModel a = Inr model \<and>
                  EmbedTexts a model [Text qu] = Inr (v # vs) \<and>
                  q_columns q0 = message_columns @ [(''embedding <#> ? AS dist'', [ArgVector v])]))"
  using assms
  by (auto simp: buildMessagesSelectQuery_def Let_def addMessagesVectorColumn_def message_columns_def
      NewSelect_def TableExpr_def JoinOn_def ColumnExpr_def
      split: prod.splits sum.splits list.splits if_splits)

lemma searchMessages_scan:
  assumes "CallScan q \<in> set (snd (searchMessages U appState db sid query limit))"
  shows "\<exists>a qu q0. appState = Some a \<and> query = Some qu \<and> \<not> (Text qu = '''' \<and> Metadata qu = []) \<and>
            fst (buildMessagesSelectQuery a qu) = Inr q0 \<and>
            prepare_messages_query U sid qu limit q0 = Inr q"
proof -
  from assms obtain a qu where aq: "appState = Some a" "query = Some qu"
    by (cases appState; cases query) (auto simp: searchMessages_def)
  from assms aq have ne: "\<not> (Text qu = '''' \<and> Metadata qu = [])"
    by (auto simp: searchMessages_def)
  obtain r0 cs where b: "buildMessagesSelectQuery a qu = (r0, cs)" by (cases "buildMessagesSelectQuery a qu")
  have nocs: "CallScan q \<notin> set cs" using buildMessagesSelectQuery_calls[of q a qu] b by simp
  from assms aq ne b nocs obtain q0 where r0: "r0 = Inr q0"
    by (cases r0) (auto simp: searchMessages_def)
  from assms aq ne b nocs r0 have "prepare_messages_query U sid qu limit q0 = Inr q"
    by (cases "prepare_messages_query U sid qu limit q0")
       (auto simp: searchMessages_def split: sum.splits)
  with aq ne b r0 show ?thesis by auto
qed

lemma searchMessages_scanned_query:
  assumes "CallScan q \<in> set (snd (searchMessages U appState db sid query limit))"
  shows "\<exists>a qu cl. appState = Some a \<and> query = Some qu \<and> \<not> (Text qu = '''' \<and> Metadata qu = []) \<and>
           (\<forall>w\<in>set cl. Sep w = '' AND '') \<and>
           q_where q = cl @ [Cond '' AND '' ''m.session_id = ?'' [ArgStr sid],
                             Cond '' AND '' ''m.deleted_at IS NULL'' []] \<and>
           q_order q = [if Text qu \<noteq> '''' then ''dist ASC'' else ''m.created_at DESC''] \<and>
           q_limit q = (if limit = 0 then 10 else limit) \<and>
           \<not> q_model_soft_delete q \<and>
           (if Text qu = '''' then q_columns q = message_columns
            else (\<exists>model v vs. GetMessageEmbeddingModel a = Inr model \<and>
                  EmbedTexts a model [Text qu] = Inr (v # vs) \<and>
                  q_columns q = message_columns @ [(''embedding <#> ? AS dist'', [ArgVector v])]))"
proof -
  from searchMessages_scan[OF assms] obtain a qu q0 where
    aq: "appState = Some a" "query = Some qu" "\<not> (Text qu = '''' \<and> Metadata qu = [])"
    and b: "fst (buildMessagesSelectQuery a qu) = Inr q0"
    and p: "prepare_messages_query U sid qu limit q0 = Inr q" by blast
  from prepare_messages_query_shape[OF p] obtain q00 cl where
    q0: "q0 = Some q00" and cl: "\<forall>w\<in>set cl. Sep w = '' AND ''"
    and q: "q = q00\<lparr>q_where := q_where q00 @ cl @ [Cond '' AND '' ''m.session_id = ?'' [ArgStr sid],
                                                Cond '' AND '' ''m.deleted_at IS NULL'' []],
                  q_order := q_order q00 @ [if Text qu \<noteq> '''' then ''dist ASC'' else ''m.created_at DESC''],
                  q_limit := (if limit = 0 then 10 else limit)\<rparr>" by blast
  from buildMessagesSelectQuery_shape[OF b[unfolded q0]] q cl aq show ?thesis
    by (intro exI[of _ a] exI[of _ qu] exI[of _ cl]) (auto split: if_splits)
qed

lemma buildQuery_shape:
  assumes "fst (buildQuery U sd dso) = Inr q"
  shows "q_limit q = dso_limit dso \<and>
         q_order q = (if Text (dso_searchPayload dso) \<noteq> '''' then [''dist ASC''] else []) \<and>
         q_model_soft_delete q = sd \<and>
         (if Text (dso_searchPayload dso) = '''' then q_columns q = []
          else (\<exists>model v vs. GetDocumentEmbeddingModel (dso_appState dso) ''document'' = Inr model \<and>
                  EmbedDocumentTexts (dso_appState dso) model ''document'' [Text (dso_searchPayload dso)] = Inr (v # vs) \<and>
                  q_columns q = [(''1 - (embedding <=> ?) AS dist'', [ArgVector v])]))"
  using assms
  by (auto simp: buildQuery_def Let_def getDocQueryVector_def applyDocsMetadataFilter_def and_then_Inr
      NewSelect_def Model_q_def ModelTableExpr_def ColumnExpr_def Limit_def Order_def
      split: prod.splits sum.splits list.splits if_splits option.splits)

lemma applyDocsMetadataFilter_where:
  assumes "applyDocsMetadataFilter U query m = Inr q" "\<forall>w\<in>set (q_where query). Sep w = '' AND ''"
  shows "\<forall>w\<in>set (q_where q). Sep w = '' AND ''"
proof (cases "map_of m ''where''")
  case None
  with assms show ?thesis by (simp add: applyDocsMetadataFilter_def)
next
  case (Some w)
  with assms(1) obtain jq ws where p: "parseJSONQuery (q_where query) jq False = Inr ws"
    and q: "q = query\<lparr>q_where := ws\<rparr>"
    by (auto simp: applyDocsMetadataFilter_def split: sum.splits)
  from parse_False_shape[OF p] assms(2) q show ?thesis by auto
qed

lemma buildQuery_where:
  assumes "fst (buildQuery U sd dso) = Inr q"
  shows "\<forall>w\<in>set (q_where q). Sep w = '' AND ''"
proof -
  have f: "\<And>query m q. applyDocsMetadataFilter U query m = Inr q \<Longrightarrow> q_where query = [] \<Longrightarrow>
            \<forall>w\<in>set (q_where q). Sep w = '' AND ''"
    using applyDocsMetadataFilter_where by simp
  from assms show ?thesis
    by (auto simp: buildQuery_def Let_def getDocQueryVector_def and_then_Inr
        NewSelect_def Model_q_def ModelTableExpr_def ColumnExpr_def Limit_def Order_def
        split: prod.splits sum.splits list.splits if_splits dest!: f)
qed

lemmas builder_defs =
  NewSelect_def TableExpr_def JoinOn_def ColumnExpr_def Where_q_def Where_qb_def WhereOr_def
  WhereGroup_def Order_def Limit_def Model_q_def ModelTableExpr_def deref_def and_then_def

lemmas messages_defs =
  searchMessages_def buildMessagesSelectQuery_def addMessagesVectorColumn_def
  prepare_messages_query_def applyMessagesMetadataFilter_def parseJSONQuery_on_def
  addMessageDateFilters_def addMessagesSortQuery_def filterValidMessageSearchResults_def
  defaultSearchLimit_def

lemmas documents_defs =
  newDocumentSearchOperation_def buildQuery_def getDocQueryVector_def applyDocsMetadataFilter_def
  DefaultDocumentSearchLimit_def times2_int64_def

lemmas fixture_defs = appState0_def db0_def Unmarshal0_def collection0_def

lemmas update_defs =
  Update_def updateUser_def Get_def mergeMetadata_def acquireAdvisoryLock_def releaseAdvisoryLock_def
  received_def omit_zero_update_def

lemmas where_defs =
  matches_def where_holds_def sql_bool_def cond_holds_def selects_def ReplaceAll_quote_def row0_def

section \<open>What a search returns\<close>

lemma searchMessages_result:
  assumes "fst (searchMessages U appState db sid query limit) = Inr rs"
  shows "\<exists>qu q results. query = Some qu \<and>
           CallScan q \<in> set (snd (searchMessages U appState db sid query limit)) \<and>
           Scan db q = Inr results \<and>
           rs = filterValidMessageSearchResults results (Metadata qu)"
proof -
  from assms obtain a qu where aq: "appState = Some a" "query = Some qu"
    by (cases appState; cases query) (auto simp: searchMessages_def)
  from assms aq have ne: "\<not> (Text qu = '''' \<and> Metadata qu = [])"
    by (auto simp: searchMessages_def)
  obtain r0 cs where b: "buildMessagesSelectQuery a qu = (r0, cs)" by (cases "buildMessagesSelectQuery a qu")
  from assms aq ne b obtain q0 where r0: "r0 = Inr q0"
    by (cases r0) (auto simp: searchMessages_def)
  from assms aq ne b r0 obtain q where p: "prepare_messages_query U sid qu limit q0 = Inr q"
    by (cases "prepare_messages_query U sid qu limit q0") (auto simp: searchMessages_def)
  from assms aq ne b r0 p obtain results where s: "Scan db q = Inr results"
    by (cases "Scan db q") (auto simp: searchMessages_def)
  from assms aq ne b r0 p s show ?thesis
    by (auto simp: searchMessages_def)
qed

lemma filterValidMessageSearchResults_subseq:
  "subseq (filterValidMessageSearchResults results m) results"
  by (simp add: filterValidMessageSearchResults_def)

lemma where_holds_last_and:
  assumes "\<forall>w\<in>set ws. Sep w = '' AND ''" "where_holds r (ws @ [Cond '' AND '' q1 a1, Cond '' AND '' q2 a2])"
  shows "cond_holds r q1 a1 \<and> cond_holds r q2 a2"
proof -
  from assms(1) have "\<forall>w\<in>set (ws @ [Cond '' AND '' q1 a1, Cond '' AND '' q2 a2]). Sep w = '' AND ''"
    by auto
  from where_holds_all_and[OF this, of r] assms(2) show ?thesis by simp
qed

section \<open>The merge and the locked section\<close>

lemma map_of_put: "map_of (put k v m) = (map_of m)(k \<mapsto> v)"
  by (induction m) auto

lemma deepMerge_absent:
  "k \<notin> fst ` set u \<Longrightarrow> map_of (deepMerge privileged e u) k = map_of e k"
proof (induction u arbitrary: e)
  case Nil
  then show ?case by simp
next
  case (Cons x u)
  obtain k' v where x: "x = (k', v)" by (cases x)
  with Cons.prems have "k' \<noteq> k" "k \<notin> fst ` set u" by auto
  with Cons.IH x show ?case by (simp add: Let_def map_of_put)
qed

lemma mergeValue_keeps:
  "is_zero new \<Longrightarrow> \<not> is_zero old \<Longrightarrow> mergeValue False old new = old"
  by (cases new) auto

lemma deepMerge_zero_keeps:
  assumes "distinct (map fst u)" "map_of u k = Some new" "is_zero new"
    "map_of e k = Some old" "\<not> is_zero old"
  shows "map_of (deepMerge False e u) k = Some old"
  using assms
proof (induction u arbitrary: e)
  case Nil
  then show ?case by simp
next
  case (Cons x u)
  obtain k' v where x: "x = (k', v)" by (cases x)
  show ?case
  proof (cases "k' = k")
    case True
    with Cons.prems x have v: "v = new" and nk: "k \<notin> fst ` set u" by auto
    from True v x Cons.prems have
      "deepMerge False e (x # u) = deepMerge False (put k old e) u"
      by (simp add: Let_def mergeValue_keeps)
    with deepMerge_absent[OF nk, of False "put k old e"] show ?thesis
      by (simp add: map_of_put)
  next
    case False
    with Cons.prems x have 1: "distinct (map fst u)" "map_of u k = Some new" by auto
    define merged where "merged = (case map_of e k' of None \<Rightarrow> v | Some old \<Rightarrow> mergeValue False old v)"
    from False Cons.prems have 2: "map_of (put k' merged e) k = Some old"
      by (simp add: map_of_put)
    from Cons.IH[OF 1 Cons.prems(3) 2 Cons.prems(5)] x show ?thesis
      by (simp add: Let_def merged_def)
  qed
qed

lemma Get_effect:
  "\<exists>r. Get db userID = (r, db\<lparr>calls := calls db @ [SelectUser userID]\<rparr>)"
  by (auto simp: Get_def received_def Let_def split: option.splits)

lemma updateUser_effect:
  "\<exists>r rest us. updateUser db user = (r, db\<lparr>users := us, calls := calls db @ ExecUpdate (UserID user) # rest\<rparr>)
      \<and> (\<forall>c\<in>set rest. \<not> is_lock_call c)"
proof (cases "fails db (ExecUpdate (UserID user))")
  case (Some err)
  then have "updateUser db user = (Inl err, db\<lparr>users := users db, calls := calls db @ ExecUpdate (UserID user) # []\<rparr>)"
    by (simp add: updateUser_def received_def Let_def)
  then show ?thesis by (metis empty_iff empty_set)
next
  case None
  define db1 where "db1 = db\<lparr>calls := calls db @ [ExecUpdate (UserID user)],
      users := map (\<lambda>u. if UserID u = UserID user then omit_zero_update user u else u) (users db)\<rparr>"
  show ?thesis
  proof (cases "length (filter (\<lambda>u. UserID u = UserID user) (users db)) = 0")
    case True
    with None have "updateUser db user = (Inl (NotFoundError (''user '' @ UserID user)),
        db\<lparr>users := users db1, calls := calls db @ ExecUpdate (UserID user) # []\<rparr>)"
      by (simp add: updateUser_def received_def Let_def db1_def)
    then show ?thesis by (metis empty_iff empty_set)
  next
    case False
    with None have u: "updateUser db user = Get db1 (UserID user)"
      by (simp add: updateUser_def received_def Let_def db1_def)
    from Get_effect[of db1 "UserID user"] obtain r where
      "Get db1 (UserID user) = (r, db1\<lparr>calls := calls db1 @ [SelectUser (UserID user)]\<rparr>)" by blast
    with u have "updateUser db user = (r, db\<lparr>users := users db1,
        calls := calls db @ ExecUpdate (UserID user) # [SelectUser (UserID user)]\<rparr>)"
      by (simp add: db1_def)
    moreover have "\<forall>c\<in>set [SelectUser (UserID user)]. \<not> is_lock_call c" by simp
    ultimately show ?thesis by blast
  qed
qed

lemma mergeMetadata_effect:
  "\<exists>r. mergeMetadata db k v t m p = (r, db\<lparr>calls := calls db @ [SelectMetadata t v]\<rparr>)"
  by (auto simp: mergeMetadata_def received_def Let_def split: option.splits)

lemma Update_locked_section:
  assumes "UserID user \<noteq> ''''" "UserMetadata user = Some m"
    "fails db (AcquireAdvisoryLock (UserID user)) = None"
  shows "\<exists>mid.
           calls (snd (Update db user p))
             = calls db @ [AcquireAdvisoryLock (UserID user)] @ mid
                 @ [ReleaseAdvisoryLock (lock_hash db (UserID user))]
           \<and> mid \<noteq> [] \<and> hd mid = SelectMetadata ''users'' (UserID user)
           \<and> (\<forall>c\<in>set mid. \<not> is_lock_call c)
           \<and> (fails db (ReleaseAdvisoryLock (lock_hash db (UserID user))) = None \<longrightarrow>
                 held (snd (Update db user p)) = held db)"
proof -
  let ?uid = "UserID user"
  let ?id = "lock_hash db ?uid"
  define db1 where "db1 = db\<lparr>calls := calls db @ [AcquireAdvisoryLock ?uid], held := ?id # held db\<rparr>"
  have acq: "acquireAdvisoryLock db ?uid = (Inr ?id, db1)"
    using assms(3) by (simp add: acquireAdvisoryLock_def received_def Let_def db1_def)
  obtain rm where mm: "mergeMetadata db1 ''user_id'' ?uid ''users'' m p
      = (rm, db1\<lparr>calls := calls db1 @ [SelectMetadata ''users'' ?uid]\<rparr>)"
    using mergeMetadata_effect by blast
  define db2 where "db2 = db1\<lparr>calls := calls db1 @ [SelectMetadata ''users'' ?uid]\<rparr>"
  have "\<exists>r rest us. (case rm of
            Inl err \<Rightarrow> (Inl (Wrapped ''failed to merge metadata'' err), db2)
          | Inr mergedMetadata \<Rightarrow> updateUser db2 (user\<lparr>UserMetadata := Some mergedMetadata\<rparr>))
        = (r, db2\<lparr>users := us, calls := calls db2 @ rest\<rparr>) \<and> (\<forall>c\<in>set rest. \<not> is_lock_call c)"
  proof (cases rm)
    case (Inl err)
    show ?thesis
      by (rule exI[of _ "Inl (Wrapped ''failed to merge metadata'' err)"], rule exI[of _ "[]"],
          rule exI[of _ "users db2"]) (simp add: Inl)
  next
    case (Inr mergedMetadata)
    from updateUser_effect[of db2 "user\<lparr>UserMetadata := Some mergedMetadata\<rparr>"]
    obtain r rest us where
      u: "updateUser db2 (user\<lparr>UserMetadata := Some mergedMetadata\<rparr>)
            = (r, db2\<lparr>users := us, calls := calls db2 @ ExecUpdate (UserID user) # rest\<rparr>)"
      and nl: "\<forall>c\<in>set rest. \<not> is_lock_call c" by auto
    show ?thesis
      by (rule exI[of _ r], rule exI[of _ "ExecUpdate (UserID user) # rest"], rule exI[of _ us])
         (simp add: Inr u nl)
  qed
  then obtain r rest us where
    body: "(case rm of
            Inl err \<Rightarrow> (Inl (Wrapped ''failed to merge metadata'' err), db2)
          | Inr mergedMetadata \<Rightarrow> updateUser db2 (user\<lparr>UserMetadata := Some mergedMetadata\<rparr>))
        = (r, db2\<lparr>users := us, calls := calls db2 @ rest\<rparr>)"
    and rest: "\<forall>c\<in>set rest. \<not> is_lock_call c" by blast
  define db3 where "db3 = db2\<lparr>users := us, calls := calls db2 @ rest\<rparr>"
  define hs where "hs = (if fails db (ReleaseAdvisoryLock ?id) = None then held db else ?id # held db)"
  have rel: "snd (releaseAdvisoryLock db3 ?id)
      = db\<lparr>users := us, held := hs,
           calls := calls db @ [AcquireAdvisoryLock ?uid] @ (SelectMetadata ''users'' ?uid # rest)
                      @ [ReleaseAdvisoryLock ?id]\<rparr>"
    by (auto simp: releaseAdvisoryLock_def received_def Let_def db3_def db2_def db1_def hs_def
        split: option.splits)
  have "Update db user p = (r, snd (releaseAdvisoryLock db3 ?id))"
    using assms(1,2) acq mm body
    by (simp add: Update_def db2_def db3_def Let_def split: sum.splits)
  with rel have fin: "Update db user p = (r, db\<lparr>users := us, held := hs,
           calls := calls db @ [AcquireAdvisoryLock ?uid] @ (SelectMetadata ''users'' ?uid # rest)
                      @ [ReleaseAdvisoryLock ?id]\<rparr>)" by simp
  show ?thesis
    by (rule exI[of _ "SelectMetadata ''users'' ?uid # rest"]) (simp add: fin rest hs_def)
qed

section \<open>Claims\<close>

text \<open>
  C1. With MMR requested, the query of a document search should ask the store for twice
  the limit. It does not: \<open>buildQuery\<close> doubles its local \<^verbatim>\<open>limit\<close> and then calls
  \<^verbatim>\<open>query.Limit(dso.limit)\<close>. For limit 5 under MMR the query asks for 5 rows, not 10.
\<close>

theorem buildQuery_limit_under_MMR:
  "map_sum id q_limit
     (fst (buildQuery Unmarshal0 True
        (newDocumentSearchOperation appState0 \<lparr>Text = ''hello'', Metadata = []\<rparr> collection0 5 True)))
   = Inr 5"
  by (simp add: documents_defs builder_defs fixture_defs ReplaceAll_quote_def Let_def)

text \<open>
  Whatever the operation, a query that \<open>buildQuery\<close> returns carries the operation's own
  limit, with MMR as without.
\<close>

lemma buildQuery_limit_is_dso_limit:
  "fst (buildQuery U sd dso) = Inr q \<Longrightarrow> q_limit q = dso_limit dso"
  by (simp add: buildQuery_shape)

text \<open>
  The distance column of a query with text, for every search: a message search selects the
  six message columns and then \<^verbatim>\<open>embedding <#> ?\<close>, a document search selects
  \<^verbatim>\<open>1 - (embedding <=> ?)\<close>; in both the placeholder is bound to the first vector the
  embedding provider returned for the query text.
\<close>

lemma distance_column_per_kind:
  "(CallScan q \<in> set (snd (searchMessages U appState db sid (Some query) limit)) \<and> Text query \<noteq> '''' \<longrightarrow>
      (\<exists>a model v vs. appState = Some a \<and> GetMessageEmbeddingModel a = Inr model \<and>
          EmbedTexts a model [Text query] = Inr (v # vs) \<and>
          q_columns q = message_columns @ [(''embedding <#> ? AS dist'', [ArgVector v])]))
   \<and> (fst (buildQuery U sd dso) = Inr q' \<and> Text (dso_searchPayload dso) \<noteq> '''' \<longrightarrow>
      (\<exists>model v vs. GetDocumentEmbeddingModel (dso_appState dso) ''document'' = Inr model \<and>
          EmbedDocumentTexts (dso_appState dso) model ''document'' [Text (dso_searchPayload dso)] = Inr (v # vs) \<and>
          q_columns q' = [(''1 - (embedding <=> ?) AS dist'', [ArgVector v])]))"
proof (intro conjI impI)
  assume "CallScan q \<in> set (snd (searchMessages U appState db sid (Some query) limit)) \<and> Text query \<noteq> ''''"
  then show "\<exists>a model v vs. appState = Some a \<and> GetMessageEmbeddingModel a = Inr model \<and>
          EmbedTexts a model [Text query] = Inr (v # vs) \<and>
          q_columns q = message_columns @ [(''embedding <#> ? AS dist'', [ArgVector v])]"
    using searchMessages_scanned_query[of q U appState db sid "Some query" limit] by auto
next
  assume "fst (buildQuery U sd dso) = Inr q' \<and> Text (dso_searchPayload dso) \<noteq> ''''"
  then show "\<exists>model v vs. GetDocumentEmbeddingModel (dso_appState dso) ''document'' = Inr model \<and>
          EmbedDocumentTexts (dso_appState dso) model ''document'' [Text (dso_searchPayload dso)] = Inr (v # vs) \<and>
          q_columns q' = [(''1 - (embedding <=> ?) AS dist'', [ArgVector v])]"
    using buildQuery_shape[of U sd dso q'] by auto
qed

text \<open>A message search and a document search for the text \<^verbatim>\<open>hello\<close>.\<close>

lemma distance_column_per_kind_example:
  "(\<exists>q. CallScan q \<in> set (snd (searchMessages Unmarshal0 (Some appState0) db0 ''s1''
                                   (Some \<lparr>Text = ''hello'', Metadata = []\<rparr>) 0))
        \<and> q_columns q = message_columns @ [(''embedding <#> ? AS dist'', [ArgVector [1, 2, 3]])])
   \<and> (\<exists>q'. fst (buildQuery Unmarshal0 True
                 (newDocumentSearchOperation appState0 \<lparr>Text = ''hello'', Metadata = []\<rparr> collection0 5 False))
              = Inr q'
        \<and> q_columns q' = [(''1 - (embedding <=> ?) AS dist'', [ArgVector [4, 5, 6]])])"
proof -
  let ?p = "\<lparr>Text = ''hello'', Metadata = []\<rparr>"
  let ?dso = "newDocumentSearchOperation appState0 ?p collection0 5 False"
  obtain q where m: "CallScan q \<in> set (snd (searchMessages Unmarshal0 (Some appState0) db0 ''s1'' (Some ?p) 0))"
    by (auto simp: messages_defs builder_defs fixture_defs ReplaceAll_quote_def Let_def)
  obtain q' where d: "fst (buildQuery Unmarshal0 True ?dso) = Inr q'"
    by (auto simp: documents_defs builder_defs fixture_defs ReplaceAll_quote_def Let_def)
  have t: "Text ?p \<noteq> ''''" "Text (dso_searchPayload ?dso) \<noteq> ''''"
    by (simp_all add: newDocumentSearchOperation_def)
  from distance_column_per_kind[where q = q and U = Unmarshal0 and appState = "Some appState0"
      and db = db0 and sid = "''s1''" and query = ?p and limit = 0 and sd = True and dso = ?dso and q' = q']
    m d t
  have "q_columns q = message_columns @ [(''embedding <#> ? AS dist'', [ArgVector [1, 2, 3]])]"
    and "q_columns q' = [(''1 - (embedding <=> ?) AS dist'', [ArgVector [4, 5, 6]])]"
    by (auto simp: fixture_defs newDocumentSearchOperation_def)
  with m d show ?thesis by blast
qed

text \<open>
  What the two columns hold, for every stored embedding and query vector: the message
  column the negative inner product, the document column the cosine similarity, which is
  1 minus the cosine distance.
\<close>

lemma dist_column_readings:
  "dist_column ''embedding <#> ? AS dist'' e v = Some (negative_inner_product e v)
   \<and> dist_column ''1 - (embedding <=> ?) AS dist'' e v = Some (cosine_similarity e v)
   \<and> cosine_similarity e v = 1 - cosine_distance e v"
  by (simp add: dist_column_def cosine_distance_def)

text \<open>
  C2. The distance column of a message search holds the negative inner product. That of a
  document search should hold the cosine distance, as the comment above the expression
  says ("Cosine distance is 1 - (a <=> b)"). It does not: \<^verbatim>\<open><=>\<close> is the cosine distance
  already, and the column is 1 minus it. For the query vector (4, 5, 6), a document with
  that very embedding is at cosine distance 0 and gets the column value 1; a document
  with the orthogonal embedding (5, -4, 0) is at cosine distance 1 and gets 0, so under
  \<^verbatim>\<open>ORDER BY dist ASC\<close> it comes first.
\<close>

theorem document_distance_column_is_similarity:
  "map_sum id q_columns
     (fst (buildQuery Unmarshal0 True
        (newDocumentSearchOperation appState0 \<lparr>Text = ''hello'', Metadata = []\<rparr> collection0 5 False)))
     = Inr [(''1 - (embedding <=> ?) AS dist'', [ArgVector [4, 5, 6]])]
   \<and> map_sum id q_order
     (fst (buildQuery Unmarshal0 True
        (newDocumentSearchOperation appState0 \<lparr>Text = ''hello'', Metadata = []\<rparr> collection0 5 False)))
     = Inr [''dist ASC'']
   \<and> cosine_distance [4, 5, 6] [4, 5, 6] = 0
   \<and> dist_column ''1 - (embedding <=> ?) AS dist'' [4, 5, 6] [4, 5, 6] = Some 1
   \<and> cosine_distance [5, - 4, 0] [4, 5, 6] = 1
   \<and> dist_column ''1 - (embedding <=> ?) AS dist'' [5, - 4, 0] [4, 5, 6] = Some 0
   \<and> dist_column ''embedding <#> ? AS dist'' [5, - 4, 0] [1, 2, 3]
       = Some (negative_inner_product [5, - 4, 0] [1, 2, 3])"
proof -
  have q: "fst (buildQuery Unmarshal0 True
        (newDocumentSearchOperation appState0 \<lparr>Text = ''hello'', Metadata = []\<rparr> collection0 5 False))
     = Inr \<lparr>q_model_soft_delete = True, q_table = ''docstore_c1_3'', q_joins = [],
            q_columns = [(''1 - (embedding <=> ?) AS dist'', [ArgVector [4, 5, 6]])],
            q_where = [], q_order = [''dist ASC''], q_limit = 5\<rparr>"
    by (simp add: documents_defs builder_defs fixture_defs Let_def)
  have d: "cosine_distance [4, 5, 6] [4, 5, 6] = 0" "cosine_distance [5, - 4, 0] [4, 5, 6] = 1"
    by (simp_all add: cosine_distance_def cosine_similarity_def inner_product_def)
  from q d show ?thesis by (simp add: dist_column_def)
qed

text \<open>
  C3. In a merge by a caller that is not privileged, a key absent from the update keeps
  the value the existing document has for it (or stays absent), and a key for which the
  update gives a null or zero value keeps its prior non-zero value; merging
  \<^verbatim>\<open>{"a":null,"c":3}\<close> into \<^verbatim>\<open>{"a":1,"b":2}\<close> gives \<^verbatim>\<open>{"a":1,"b":2,"c":3}\<close>. The keys
  of an update document are distinct, as those of a Go map are.
\<close>

theorem merge_keeps_absent_and_nonzero:
  "(k \<notin> fst ` set u \<longrightarrow> map_of (deepMerge False e u) k = map_of e k)
   \<and> (distinct (map fst u) \<and> map_of u k = Some new \<and> is_zero new \<and>
        map_of e k = Some old \<and> \<not> is_zero old \<longrightarrow>
        map_of (deepMerge False e u) k = Some old)
   \<and> deepMerge False [(''a'', JNum 1), (''b'', JNum 2)] [(''a'', JNull), (''c'', JNum 3)]
        = [(''a'', JNum 1), (''b'', JNum 2), (''c'', JNum 3)]"
  by (auto simp: deepMerge_absent deepMerge_zero_keeps)

text \<open>
  C3, witness: the two rules at the keys \<^verbatim>\<open>b\<close> and \<^verbatim>\<open>a\<close> of the example; the document
  \<open>Update\<close> stores for it; and the scenario of the test "Update should not overwrite with
  zero values" (nil metadata, empty email, a first name), which keeps metadata and email.
\<close>

theorem merge_keeps_absent_and_nonzero_witness:
  "map_of (deepMerge False [(''a'', JNum 1), (''b'', JNum 2)] [(''a'', JNull), (''c'', JNum 3)]) ''b''
     = Some (JNum 2)
   \<and> map_of (deepMerge False [(''a'', JNum 1), (''b'', JNum 2)] [(''a'', JNull), (''c'', JNum 3)]) ''a''
     = Some (JNum 1)
   \<and> map_sum id UserMetadata (fst (Update store0 update0 False))
     = Inr (Some [(''a'', JNum 1), (''b'', JNum 2), (''c'', JNum 3)])
   \<and> fst (Update store0 (update0\<lparr>UserMetadata := None\<rparr>) False)
     = Inr \<lparr>UserID = ''u1'', Email = ''email'', FirstName = ''bob'', LastName = '''',
            UserMetadata = Some [(''a'', JNum 1), (''b'', JNum 2)]\<rparr>"
proof -
  let ?e = "[(''a'', JNum 1), (''b'', JNum 2)]"
  let ?u = "[(''a'', JNull), (''c'', JNum 3)]"
  have h1: "''b'' \<notin> fst ` set ?u" by simp
  have h2: "distinct (map fst ?u) \<and> map_of ?u ''a'' = Some JNull \<and> is_zero JNull \<and>
        map_of ?e ''a'' = Some (JNum 1) \<and> \<not> is_zero (JNum 1)" by simp
  from merge_keeps_absent_and_nonzero[where k = "''b''" and u = ?u and e = ?e] h1
  have 1: "map_of (deepMerge False ?e ?u) ''b'' = Some (JNum 2)" by simp
  from merge_keeps_absent_and_nonzero[where k = "''a''" and u = ?u and e = ?e and new = JNull and old = "JNum 1"] h2
  have 2: "map_of (deepMerge False ?e ?u) ''a'' = Some (JNum 1)" by blast
  have 3: "map_sum id UserMetadata (fst (Update store0 update0 False))
     = Inr (Some [(''a'', JNum 1), (''b'', JNum 2), (''c'', JNum 3)])"
    by (simp add: update_defs store0_def update0_def Let_def)
  have 4: "fst (Update store0 (update0\<lparr>UserMetadata := None\<rparr>) False)
     = Inr \<lparr>UserID = ''u1'', Email = ''email'', FirstName = ''bob'', LastName = '''',
            UserMetadata = Some [(''a'', JNum 1), (''b'', JNum 2)]\<rparr>"
    by (simp add: update_defs store0_def update0_def Let_def)
  from 1 2 3 4 show ?thesis by simp
qed

text \<open>
  C4 (amended). For an update with a user id: if the metadata of the update is nil, the
  call is \<open>updateUser\<close> and nothing else, the store receives the write first and no lock
  call at all. Otherwise (an empty document that is not nil included) the store receives
  the lock acquisition first; if that succeeds, it then receives the read of the merge and
  whatever the merge and the write go on to send, no lock call among them, and last the
  release of the very lock acquired, whatever the merge and the write answered; when the
  release succeeds the locks held are those held before. If the acquisition fails, the
  call returns that error and the store has received nothing else. An update without a
  user id returns the error \<^verbatim>\<open>UserID cannot be empty\<close> and leaves the store as it was,
  without a call.
\<close>

theorem Update_lock_discipline:
  "(UserID user = '''' \<longrightarrow>
      Update db user p = (Inl (ErrorsNew ''UserID cannot be empty''), db))
   \<and> (UserID user \<noteq> '''' \<longrightarrow>
     (UserMetadata user = None \<longrightarrow>
        Update db user p = updateUser db user
        \<and> (\<exists>rest. calls (snd (Update db user p)) = calls db @ ExecUpdate (UserID user) # rest
                   \<and> (\<forall>c\<in>set rest. \<not> is_lock_call c))
        \<and> held (snd (Update db user p)) = held db)
     \<and> (UserMetadata user \<noteq> None \<and> fails db (AcquireAdvisoryLock (UserID user)) = None \<longrightarrow>
        (\<exists>mid. calls (snd (Update db user p))
                  = calls db @ [AcquireAdvisoryLock (UserID user)] @ mid
                      @ [ReleaseAdvisoryLock (lock_hash db (UserID user))]
               \<and> mid \<noteq> [] \<and> hd mid = SelectMetadata ''users'' (UserID user)
               \<and> (\<forall>c\<in>set mid. \<not> is_lock_call c))
        \<and> (fails db (ReleaseAdvisoryLock (lock_hash db (UserID user))) = None \<longrightarrow>
             held (snd (Update db user p)) = held db))
     \<and> (UserMetadata user \<noteq> None \<and> fails db (AcquireAdvisoryLock (UserID user)) = Some err \<longrightarrow>
        fst (Update db user p) = Inl (Wrapped ''failed to acquire advisory lock'' err)
        \<and> calls (snd (Update db user p)) = calls db @ [AcquireAdvisoryLock (UserID user)]
        \<and> held (snd (Update db user p)) = held db))"
proof (intro impI conjI)
  assume "UserID user = ''''"
  then show "Update db user p = (Inl (ErrorsNew ''UserID cannot be empty''), db)"
    by (simp add: Update_def)
next
  assume id: "UserID user \<noteq> ''''" and n: "UserMetadata user = None"
  then show u: "Update db user p = updateUser db user" by (simp add: Update_def)
  from updateUser_effect[of db user] obtain r rest us where
    e: "updateUser db user = (r, db\<lparr>users := us, calls := calls db @ ExecUpdate (UserID user) # rest\<rparr>)"
    and nl: "\<forall>c\<in>set rest. \<not> is_lock_call c" by blast
  from u e nl show "\<exists>rest. calls (snd (Update db user p)) = calls db @ ExecUpdate (UserID user) # rest
                   \<and> (\<forall>c\<in>set rest. \<not> is_lock_call c)" by auto
  from u e show "held (snd (Update db user p)) = held db" by simp
next
  assume id: "UserID user \<noteq> ''''"
    and a: "UserMetadata user \<noteq> None \<and> fails db (AcquireAdvisoryLock (UserID user)) = None"
  then obtain m where m: "UserMetadata user = Some m" by auto
  from a have f: "fails db (AcquireAdvisoryLock (UserID user)) = None" by simp
  from Update_locked_section[OF id m f, of p] obtain mid where
    c: "calls (snd (Update db user p))
             = calls db @ [AcquireAdvisoryLock (UserID user)] @ mid
                 @ [ReleaseAdvisoryLock (lock_hash db (UserID user))]"
    and mid: "mid \<noteq> []" "hd mid = SelectMetadata ''users'' (UserID user)" "\<forall>c\<in>set mid. \<not> is_lock_call c"
    and hs: "fails db (ReleaseAdvisoryLock (lock_hash db (UserID user))) = None \<longrightarrow>
                 held (snd (Update db user p)) = held db"
    by (elim exE conjE)
  from c mid show "\<exists>mid. calls (snd (Update db user p))
                  = calls db @ [AcquireAdvisoryLock (UserID user)] @ mid
                      @ [ReleaseAdvisoryLock (lock_hash db (UserID user))]
               \<and> mid \<noteq> [] \<and> hd mid = SelectMetadata ''users'' (UserID user)
               \<and> (\<forall>c\<in>set mid. \<not> is_lock_call c)" by (intro exI[of _ mid] conjI)
  assume "fails db (ReleaseAdvisoryLock (lock_hash db (UserID user))) = None"
  with hs show "held (snd (Update db user p)) = held db" by simp
next
  assume id: "UserID user \<noteq> ''''"
    and a: "UserMetadata user \<noteq> None \<and> fails db (AcquireAdvisoryLock (UserID user)) = Some err"
  then obtain m where m: "UserMetadata user = Some m" by auto
  from id a m show "fst (Update db user p) = Inl (Wrapped ''failed to acquire advisory lock'' err)"
    "calls (snd (Update db user p)) = calls db @ [AcquireAdvisoryLock (UserID user)]"
    "held (snd (Update db user p)) = held db"
    by (simp_all add: Update_def acquireAdvisoryLock_def received_def Let_def)
qed

text \<open>
  C4, witness: an update with nil metadata; an update whose write fails and one whose
  merge fails, both released; an update whose lock acquisition fails; an update without
  a user id.
\<close>

theorem Update_lock_discipline_witness:
  "(\<exists>rest. calls (snd (Update store0 (update0\<lparr>UserMetadata := None\<rparr>) False)) = ExecUpdate ''u1'' # rest)
   \<and> (\<exists>mid. calls (snd (Update (store_failing (ExecUpdate ''u1'')) update0 False))
               = [AcquireAdvisoryLock ''u1''] @ mid @ [ReleaseAdvisoryLock 42])
   \<and> fst (Update (store_failing (ExecUpdate ''u1'')) update0 False) = Inl (External ''store failure'')
   \<and> held (snd (Update (store_failing (ExecUpdate ''u1'')) update0 False)) = []
   \<and> (\<exists>mid. calls (snd (Update (store_failing (SelectMetadata ''users'' ''u1'')) update0 False))
               = [AcquireAdvisoryLock ''u1''] @ mid @ [ReleaseAdvisoryLock 42])
   \<and> fst (Update (store_failing (SelectMetadata ''users'' ''u1'')) update0 False)
       = Inl (Wrapped ''failed to merge metadata'' (External ''store failure''))
   \<and> held (snd (Update (store_failing (SelectMetadata ''users'' ''u1'')) update0 False)) = []
   \<and> calls (snd (Update (store_failing (AcquireAdvisoryLock ''u1'')) update0 False))
       = [AcquireAdvisoryLock ''u1'']
   \<and> fst (Update store0 (update0\<lparr>UserID := ''''\<rparr>) False) = Inl (ErrorsNew ''UserID cannot be empty'')
   \<and> calls (snd (Update store0 (update0\<lparr>UserID := ''''\<rparr>) False)) = []"
proof -
  let ?w = "store_failing (ExecUpdate ''u1'')"
  let ?m = "store_failing (SelectMetadata ''users'' ''u1'')"
  let ?a = "store_failing (AcquireAdvisoryLock ''u1'')"
  have h0: "UserID (update0\<lparr>UserMetadata := None\<rparr>) \<noteq> ''''"
    "UserMetadata (update0\<lparr>UserMetadata := None\<rparr>) = None" "calls store0 = []"
    by (simp_all add: update0_def store0_def)
  have h: "UserID update0 \<noteq> ''''" "UserMetadata update0 \<noteq> None" "UserID update0 = ''u1''"
    by (simp_all add: update0_def)
  have hw: "fails ?w (AcquireAdvisoryLock ''u1'') = None" "fails ?w (ReleaseAdvisoryLock 42) = None"
    "lock_hash ?w ''u1'' = 42" "calls ?w = []" "held ?w = []"
    by (simp_all add: store_failing_def store0_def)
  have hm: "fails ?m (AcquireAdvisoryLock ''u1'') = None" "fails ?m (ReleaseAdvisoryLock 42) = None"
    "lock_hash ?m ''u1'' = 42" "calls ?m = []" "held ?m = []"
    by (simp_all add: store_failing_def store0_def)
  have ha: "fails ?a (AcquireAdvisoryLock ''u1'') = Some (External ''store failure'')" "calls ?a = []"
    by (simp_all add: store_failing_def store0_def)
  from Update_lock_discipline[where user = "update0\<lparr>UserMetadata := None\<rparr>" and db = store0 and p = False] h0
  have 1: "\<exists>rest. calls (snd (Update store0 (update0\<lparr>UserMetadata := None\<rparr>) False)) = ExecUpdate ''u1'' # rest"
    by (auto simp: update0_def)
  from Update_lock_discipline[where user = update0 and db = ?w and p = False] h hw
  have 2: "\<exists>mid. calls (snd (Update ?w update0 False)) = [AcquireAdvisoryLock ''u1''] @ mid @ [ReleaseAdvisoryLock 42]"
    and 3: "held (snd (Update ?w update0 False)) = []"
    by auto
  from Update_lock_discipline[where user = update0 and db = ?m and p = False] h hm
  have 4: "\<exists>mid. calls (snd (Update ?m update0 False)) = [AcquireAdvisoryLock ''u1''] @ mid @ [ReleaseAdvisoryLock 42]"
    and 5: "held (snd (Update ?m update0 False)) = []"
    by auto
  from Update_lock_discipline[where user = update0 and db = ?a and p = False
      and err = "External ''store failure''"] h ha
  have 6: "calls (snd (Update ?a update0 False)) = [AcquireAdvisoryLock ''u1'']"
    by simp
  have 7: "fst (Update ?w update0 False) = Inl (External ''store failure'')"
    by (simp add: update_defs store_failing_def store0_def update0_def Let_def)
  have 8: "fst (Update ?m update0 False) = Inl (Wrapped ''failed to merge metadata'' (External ''store failure''))"
    by (simp add: update_defs store_failing_def store0_def update0_def Let_def)
  have he: "UserID (update0\<lparr>UserID := ''''\<rparr>) = ''''" by simp
  from Update_lock_discipline[where user = "update0\<lparr>UserID := ''''\<rparr>" and db = store0 and p = False] he
  have e: "Update store0 (update0\<lparr>UserID := ''''\<rparr>) False
             = (Inl (ErrorsNew ''UserID cannot be empty''), store0)" by blast
  have 9: "fst (Update store0 (update0\<lparr>UserID := ''''\<rparr>) False) = Inl (ErrorsNew ''UserID cannot be empty'')"
    and 10: "calls (snd (Update store0 (update0\<lparr>UserID := ''''\<rparr>) False)) = []"
    by (simp_all add: e h0)
  from 1 2 3 4 5 6 7 8 9 10 show ?thesis by simp
qed

text \<open>
  C4 as stated, refuted: an empty update document that is not nil takes the lock (the
  guard is \<^verbatim>\<open>user.Metadata == nil\<close>), and an update without a user id is refused before
  any write.
\<close>

theorem empty_document_takes_lock_counterexample:
  "calls (snd (Update store0 (update0\<lparr>UserMetadata := Some []\<rparr>) False))
     = [AcquireAdvisoryLock ''u1'', SelectMetadata ''users'' ''u1'', ExecUpdate ''u1'', SelectUser ''u1'',
        ReleaseAdvisoryLock 42]
   \<and> fst (Update store0 (update0\<lparr>UserID := '''', UserMetadata := None\<rparr>) False)
       = Inl (ErrorsNew ''UserID cannot be empty'')
   \<and> calls (snd (Update store0 (update0\<lparr>UserID := '''', UserMetadata := None\<rparr>) False)) = []"
  by (simp add: update_defs store0_def update0_def Let_def)

text \<open>
  C5. A message search whose query has no text and no metadata returns the error
  \<^verbatim>\<open>empty query\<close> and has sent nothing to the embedding provider or the store; whatever
  the application state, it fails without a call. A query with text or metadata never
  gets that error.
\<close>

theorem searchMessages_empty_query:
  "(Text query = '''' \<and> Metadata query = [] \<longrightarrow>
      searchMessages U (Some a) db sid (Some query) limit
        = (Inl (StorageError ''empty query'' (Some (ErrorsNew ''empty query''))), [])
      \<and> isl (fst (searchMessages U appState db sid (Some query) limit))
      \<and> snd (searchMessages U appState db sid (Some query) limit) = [])
   \<and> (Text query \<noteq> '''' \<or> Metadata query \<noteq> [] \<longrightarrow>
      fst (searchMessages U appState db sid (Some query) limit)
        \<noteq> Inl (StorageError ''empty query'' (Some (ErrorsNew ''empty query''))))"
proof (intro conjI impI)
  assume e: "Text query = '''' \<and> Metadata query = []"
  then show "searchMessages U (Some a) db sid (Some query) limit
        = (Inl (StorageError ''empty query'' (Some (ErrorsNew ''empty query''))), [])"
    by (simp add: searchMessages_def)
  from e show "isl (fst (searchMessages U appState db sid (Some query) limit))"
    by (cases appState) (simp_all add: searchMessages_def)
  from e show "snd (searchMessages U appState db sid (Some query) limit) = []"
    by (cases appState) (simp_all add: searchMessages_def)
next
  assume ne: "Text query \<noteq> '''' \<or> Metadata query \<noteq> []"
  show "fst (searchMessages U appState db sid (Some query) limit)
        \<noteq> Inl (StorageError ''empty query'' (Some (ErrorsNew ''empty query'')))"
  proof (cases appState)
    case None
    then show ?thesis by (simp add: searchMessages_def)
  next
    case (Some a)
    obtain r0 cs where bq: "buildMessagesSelectQuery a query = (r0, cs)"
      by (cases "buildMessagesSelectQuery a query")
    have b: "\<And>e. r0 = Inl e \<Longrightarrow> is_panic e"
      using bq
      by (auto simp: buildMessagesSelectQuery_def Let_def split: prod.splits sum.splits if_splits)
    have p: "\<And>q0 e. prepare_messages_query U sid query limit q0 = Inl e \<Longrightarrow>
               is_panic e \<or> (\<exists>e'. e = StorageError ''error applying metadata filter'' e')"
      by (auto simp: prepare_messages_query_def and_then_def deref_def Let_def
          split: sum.splits if_splits option.splits)
    show ?thesis
    proof (cases r0)
      case (Inl e)
      with b have "is_panic e" by simp
      with ne Some bq Inl show ?thesis by (auto simp: searchMessages_def)
    next
      case (Inr q0)
      show ?thesis
      proof (cases "prepare_messages_query U sid query limit q0")
        case (Inl e)
        from p[OF Inl] ne Some bq Inr Inl show ?thesis by (auto simp: searchMessages_def)
      next
        case r: (Inr q)
        from ne Some bq Inr r show ?thesis
          by (cases "Scan db q") (auto simp: searchMessages_def)
      qed
    qed
  qed
qed

text \<open>
  C5, witness: the empty query, and a query with text.
\<close>

theorem searchMessages_empty_query_witness:
  "searchMessages Unmarshal0 (Some appState0) db0 ''s1'' (Some \<lparr>Text = '''', Metadata = []\<rparr>) 10
     = (Inl (StorageError ''empty query'' (Some (ErrorsNew ''empty query''))), [])
   \<and> fst (searchMessages Unmarshal0 (Some appState0) db0 ''s1'' (Some \<lparr>Text = ''hello'', Metadata = []\<rparr>) 10)
     \<noteq> Inl (StorageError ''empty query'' (Some (ErrorsNew ''empty query'')))"
  using searchMessages_empty_query[where query = "\<lparr>Text = '''', Metadata = []\<rparr>" and U = Unmarshal0
      and a = appState0 and db = db0 and sid = "''s1''" and limit = 10 and appState = "Some appState0"]
    searchMessages_empty_query[where query = "\<lparr>Text = ''hello'', Metadata = []\<rparr>" and U = Unmarshal0
      and a = appState0 and db = db0 and sid = "''s1''" and limit = 10 and appState = "Some appState0"]
  by simp

text \<open>
  What the compiled predicate does get right, for every tree: an empty tree matches every
  row; a tree with only And children matches exactly the rows all of its children match; a
  node's leaf condition, its And group and its Or group are conjoined; and a tree with
  only Or children matches exactly the rows at least one child matches when every child
  is there (not nil, nor any node below it) and carries a leaf path of its own (a
  sufficient condition, not a necessary one).
\<close>

lemma parseJSONQuery_tree_semantics:
  "matches r (JSONQuery '''' [] [])
   \<and> (matches r (JSONQuery '''' cs []) \<longleftrightarrow> (\<forall>c\<in>set cs. matches r c))
   \<and> (cs \<noteq> [] \<and> list_all nil_free cs \<and> list_all has_leaf cs \<longrightarrow>
        (matches r (JSONQuery '''' [] cs) \<longleftrightarrow> (\<exists>c\<in>set cs. matches r c)))
   \<and> (matches r (JSONQuery p ands ors) \<longleftrightarrow>
        matches r (JSONQuery p [] []) \<and> matches r (JSONQuery '''' ands []) \<and> matches r (JSONQuery '''' [] ors))"
proof (intro conjI impI)
  show "matches r (JSONQuery '''' [] [])" by (rule matches_empty)
  show "matches r (JSONQuery '''' cs []) \<longleftrightarrow> (\<forall>c\<in>set cs. matches r c)" by (rule matches_and_only)
  show "matches r (JSONQuery p ands ors) \<longleftrightarrow>
        matches r (JSONQuery p [] []) \<and> matches r (JSONQuery '''' ands []) \<and> matches r (JSONQuery '''' [] ors)"
    by (rule matches_conjoined)
next
  assume "cs \<noteq> [] \<and> list_all nil_free cs \<and> list_all has_leaf cs"
  then show "matches r (JSONQuery '''' [] cs) \<longleftrightarrow> (\<exists>c\<in>set cs. matches r c)"
    by (simp add: matches_or_only)
qed

text \<open>
  On a row whose metadata has the path \<^verbatim>\<open>$.a\<close> only, the union of two leaves matches,
  their intersection does not, and a node whose own leaf fails does not.
\<close>

lemma parseJSONQuery_tree_semantics_example:
  "matches row0 (JSONQuery '''' [] [JSONQuery ''$.a'' [] [], JSONQuery ''$.b'' [] []])
   \<and> \<not> matches row0 (JSONQuery '''' [JSONQuery ''$.a'' [] [], JSONQuery ''$.b'' [] []] [])
   \<and> \<not> matches row0 (JSONQuery ''$.b'' [JSONQuery ''$.a'' [] []] [JSONQuery ''$.a'' [] []])"
proof -
  let ?cs = "[JSONQuery ''$.a'' [] [], JSONQuery ''$.b'' [] []]"
  have a: "matches row0 (JSONQuery ''$.a'' [] [])" by (simp add: where_defs builder_defs)
  have b: "\<not> matches row0 (JSONQuery ''$.b'' [] [])" by (simp add: where_defs builder_defs)
  have h: "?cs \<noteq> [] \<and> list_all nil_free ?cs \<and> list_all has_leaf ?cs" by simp
  from parseJSONQuery_tree_semantics[of row0 ?cs "''$.b''" "[JSONQuery ''$.a'' [] []]" "[JSONQuery ''$.a'' [] []]"]
    h a b show ?thesis by simp
qed

text \<open>
  C6. A tree with only Or children should match the union of what its children match. It
  does not when a child without a leaf path of its own follows a sibling:
  \<open>parseJSONQuery\<close> hands \<open>isOr\<close> to the leaf's \<^verbatim>\<open>WhereOr\<close> only and adds the groups of a
  child with the separator \<^verbatim>\<open>" AND "\<close>. The filter \<^verbatim>\<open>a OR (x AND y)\<close> compiles to
  \<^verbatim>\<open>(a AND (x AND y))\<close>: a row with the path \<^verbatim>\<open>$.a\<close> only is matched by the first child
  and not by the tree. With the two children in the other order the tree does match it.
\<close>

theorem or_child_groups_joined_with_and:
  "parseJSONQuery []
     (JSONQuery '''' []
        [JSONQuery ''$.a'' [] [],
         JSONQuery '''' [JSONQuery ''$.x'' [] [], JSONQuery ''$.y'' [] []] []]) False
     = Inr [Group '' AND ''
              [Cond '' OR '' ''jsonb_path_exists(m.metadata, ?)'' [ArgStr ''$.a''],
               Group '' AND ''
                 [Cond '' AND '' ''jsonb_path_exists(m.metadata, ?)'' [ArgStr ''$.x''],
                  Cond '' AND '' ''jsonb_path_exists(m.metadata, ?)'' [ArgStr ''$.y'']]]]
   \<and> matches row0 (JSONQuery ''$.a'' [] [])
   \<and> \<not> matches row0
         (JSONQuery '''' []
            [JSONQuery ''$.a'' [] [],
             JSONQuery '''' [JSONQuery ''$.x'' [] [], JSONQuery ''$.y'' [] []] []])
   \<and> matches row0
         (JSONQuery '''' []
            [JSONQuery '''' [JSONQuery ''$.x'' [] [], JSONQuery ''$.y'' [] []] [],
             JSONQuery ''$.a'' [] []])"
  by (simp add: where_defs builder_defs)

text \<open>
  C7. Of the rows the store returned, one whose distance is a NaN is kept exactly when the
  query has metadata, and one whose distance is not a NaN is always kept. So a search
  without metadata returns no row with a NaN distance, and a search with metadata returns
  the rows of the store as they came.
\<close>

theorem nan_distance_filter:
  "(r \<in> set results \<and> IsNaN (Dist r) \<longrightarrow>
      (r \<in> set (filterValidMessageSearchResults results m) \<longleftrightarrow> length m > 0))
   \<and> (r \<in> set results \<and> \<not> IsNaN (Dist r) \<longrightarrow> r \<in> set (filterValidMessageSearchResults results m))
   \<and> (fst (searchMessages U appState db sid (Some query) limit) = Inr rs \<and> Metadata query = [] \<longrightarrow>
        (\<forall>x\<in>set rs. \<not> IsNaN (Dist x)))
   \<and> (fst (searchMessages U appState db sid (Some query) limit) = Inr rs \<and> Metadata query \<noteq> [] \<longrightarrow>
        (\<exists>q. CallScan q \<in> set (snd (searchMessages U appState db sid (Some query) limit)) \<and>
              Scan db q = Inr rs))"
proof (intro conjI impI)
  assume "r \<in> set results \<and> IsNaN (Dist r)"
  then show "r \<in> set (filterValidMessageSearchResults results m) \<longleftrightarrow> length m > 0"
    by (simp add: filterValidMessageSearchResults_def)
next
  assume "r \<in> set results \<and> \<not> IsNaN (Dist r)"
  then show "r \<in> set (filterValidMessageSearchResults results m)"
    by (simp add: filterValidMessageSearchResults_def)
next
  assume a: "fst (searchMessages U appState db sid (Some query) limit) = Inr rs \<and> Metadata query = []"
  with searchMessages_result[of U appState db sid "Some query" limit rs]
  show "\<forall>x\<in>set rs. \<not> IsNaN (Dist x)"
    by (auto simp: filterValidMessageSearchResults_def)
next
  assume a: "fst (searchMessages U appState db sid (Some query) limit) = Inr rs \<and> Metadata query \<noteq> []"
  with searchMessages_result[of U appState db sid "Some query" limit rs]
  show "\<exists>q. CallScan q \<in> set (snd (searchMessages U appState db sid (Some query) limit)) \<and>
              Scan db q = Inr rs"
    by (auto simp: filterValidMessageSearchResults_def)
qed

text \<open>
  C7, witness: the store answers with a row of distance 0.5 and a row of distance NaN; the
  text search returns the first only; with metadata the NaN row stays.
\<close>

theorem nan_distance_filter_witness:
  "fst (searchMessages Unmarshal0 (Some appState0) db0 ''s1'' (Some \<lparr>Text = ''hello'', Metadata = []\<rparr>) 0)
     = Inr [\<lparr>message_uuid = ''m1'', Dist = 0x3FE0000000000000\<rparr>]
   \<and> \<not> IsNaN (Dist \<lparr>message_uuid = ''m1'', Dist = 0x3FE0000000000000\<rparr>)
   \<and> IsNaN (Dist \<lparr>message_uuid = ''m2'', Dist = 0x7FF8000000000000\<rparr>)
   \<and> \<lparr>message_uuid = ''m2'', Dist = 0x7FF8000000000000\<rparr>
        \<in> set (filterValidMessageSearchResults
                 [\<lparr>message_uuid = ''m1'', Dist = 0x3FE0000000000000\<rparr>,
                  \<lparr>message_uuid = ''m2'', Dist = 0x7FF8000000000000\<rparr>]
                 [(''where'', JObj [(''jsonpath'', JStr ''$.a'')])])
   \<and> \<lparr>message_uuid = ''m2'', Dist = 0x7FF8000000000000\<rparr>
        \<notin> set (filterValidMessageSearchResults
                 [\<lparr>message_uuid = ''m1'', Dist = 0x3FE0000000000000\<rparr>,
                  \<lparr>message_uuid = ''m2'', Dist = 0x7FF8000000000000\<rparr>]
                 [])"
proof -
  let ?m1 = "\<lparr>message_uuid = ''m1'', Dist = 0x3FE0000000000000\<rparr>"
  let ?m2 = "\<lparr>message_uuid = ''m2'', Dist = 0x7FF8000000000000\<rparr>"
  let ?p = "\<lparr>Text = ''hello'', Metadata = []\<rparr>"
  have ev: "fst (searchMessages Unmarshal0 (Some appState0) db0 ''s1'' (Some ?p) 0) = Inr [?m1]"
    by (simp add: messages_defs builder_defs fixture_defs ReplaceAll_quote_def Let_def IsNaN_def)
  have nan: "IsNaN (Dist ?m2)" by (simp add: IsNaN_def)
  have mem: "?m2 \<in> set [?m1, ?m2]" by simp
  from nan_distance_filter[where r = ?m2 and results = "[?m1, ?m2]" and m = "[(''where'', JObj [(''jsonpath'', JStr ''$.a'')])]"
      and U = Unmarshal0 and appState = "Some appState0" and db = db0 and sid = "''s1''" and query = ?p
      and limit = 0 and rs = "[?m1]"]
    nan_distance_filter[where r = ?m2 and results = "[?m1, ?m2]" and m = "[]"
      and U = Unmarshal0 and appState = "Some appState0" and db = db0 and sid = "''s1''" and query = ?p
      and limit = 0 and rs = "[?m1]"]
    ev nan mem
  show ?thesis by simp
qed

text \<open>
  C8 (amended). The query a message search hands to the store is ordered by
  \<^verbatim>\<open>dist ASC\<close> when the query has text and by \<^verbatim>\<open>m.created_at DESC\<close> otherwise, and the
  rows returned are a subsequence of the store's answer, in its order. The query of a
  document search is ordered by \<^verbatim>\<open>dist ASC\<close> when the query has text and has no ORDER BY
  otherwise.
\<close>

theorem search_order:
  "(CallScan q \<in> set (snd (searchMessages U appState db sid (Some query) limit)) \<longrightarrow>
      q_order q = [if Text query \<noteq> '''' then ''dist ASC'' else ''m.created_at DESC''])
   \<and> (fst (searchMessages U appState db sid (Some query) limit) = Inr rs \<longrightarrow>
      (\<exists>q results. CallScan q \<in> set (snd (searchMessages U appState db sid (Some query) limit)) \<and>
          Scan db q = Inr results \<and> subseq rs results))
   \<and> (fst (buildQuery U sd dso) = Inr q' \<longrightarrow>
      q_order q' = (if Text (dso_searchPayload dso) \<noteq> '''' then [''dist ASC''] else []))"
proof (intro conjI impI)
  assume "CallScan q \<in> set (snd (searchMessages U appState db sid (Some query) limit))"
  from searchMessages_scanned_query[OF this]
  show "q_order q = [if Text query \<noteq> '''' then ''dist ASC'' else ''m.created_at DESC'']"
    by auto
next
  assume "fst (searchMessages U appState db sid (Some query) limit) = Inr rs"
  from searchMessages_result[OF this]
  show "\<exists>q results. CallScan q \<in> set (snd (searchMessages U appState db sid (Some query) limit)) \<and>
          Scan db q = Inr results \<and> subseq rs results"
    using filterValidMessageSearchResults_subseq by blast
next
  assume "fst (buildQuery U sd dso) = Inr q'"
  from buildQuery_shape[OF this]
  show "q_order q' = (if Text (dso_searchPayload dso) \<noteq> '''' then [''dist ASC''] else [])"
    by simp
qed

text \<open>
  C8, witness: a message search with text, one with metadata only, a document search with
  text.
\<close>

theorem search_order_witness:
  "(\<exists>q. CallScan q \<in> set (snd (searchMessages Unmarshal0 (Some appState0) db0 ''s1''
                                   (Some \<lparr>Text = ''hello'', Metadata = []\<rparr>) 0))
        \<and> q_order q = [''dist ASC''])
   \<and> (\<exists>q. CallScan q \<in> set (snd (searchMessages Unmarshal0 (Some appState0) db0 ''s1''
                                   (Some \<lparr>Text = '''', Metadata = [(''where'', JObj [(''jsonpath'', JStr ''$.a'')])]\<rparr>) 0))
        \<and> q_order q = [''m.created_at DESC''])
   \<and> (\<exists>q'. fst (buildQuery Unmarshal0 True
                 (newDocumentSearchOperation appState0 \<lparr>Text = ''hello'', Metadata = []\<rparr> collection0 5 False))
              = Inr q'
        \<and> q_order q' = [''dist ASC''])"
proof -
  let ?p = "\<lparr>Text = ''hello'', Metadata = []\<rparr>"
  let ?pm = "\<lparr>Text = '''', Metadata = [(''where'', JObj [(''jsonpath'', JStr ''$.a'')])]\<rparr>"
  let ?dso = "newDocumentSearchOperation appState0 ?p collection0 5 False"
  obtain q where m: "CallScan q \<in> set (snd (searchMessages Unmarshal0 (Some appState0) db0 ''s1'' (Some ?p) 0))"
    by (auto simp: messages_defs builder_defs fixture_defs ReplaceAll_quote_def Let_def)
  obtain qm where mm: "CallScan qm \<in> set (snd (searchMessages Unmarshal0 (Some appState0) db0 ''s1'' (Some ?pm) 0))"
    by (auto simp: messages_defs builder_defs fixture_defs ReplaceAll_quote_def Let_def)
  obtain q' where d: "fst (buildQuery Unmarshal0 True ?dso) = Inr q'"
    by (auto simp: documents_defs builder_defs fixture_defs ReplaceAll_quote_def Let_def)
  from search_order[where q = q and U = Unmarshal0 and appState = "Some appState0"
      and db = db0 and sid = "''s1''" and query = ?p and limit = 0 and sd = True and dso = ?dso and q' = q'] m d
  have 1: "q_order q = [''dist ASC'']" and 3: "q_order q' = [''dist ASC'']"
    by (auto simp: newDocumentSearchOperation_def)
  from search_order[where q = qm and U = Unmarshal0 and appState = "Some appState0"
      and db = db0 and sid = "''s1''" and query = ?pm and limit = 0] mm
  have 2: "q_order qm = [''m.created_at DESC'']" by simp
  from 1 2 3 m mm d show ?thesis by blast
qed

text \<open>
  C8 as stated, refuted: the query of a document search without text has no ORDER BY at
  all, so nothing orders its rows by creation time.
\<close>

theorem document_search_without_text_unordered_counterexample:
  "map_sum id q_order
     (fst (buildQuery Unmarshal0 True
        (newDocumentSearchOperation appState0
           \<lparr>Text = '''', Metadata = [(''where'', JObj [(''jsonpath'', JStr ''$.a'')])]\<rparr> collection0 10 False)))
   = Inr []"
  by (simp add: documents_defs builder_defs fixture_defs ReplaceAll_quote_def Let_def)

text \<open>
  C9. A row selected by the query of a message search has no delete marker: the WHERE list
  ends with \<^verbatim>\<open>m.deleted_at IS NULL\<close>, joined by AND to all that precedes it. The query of
  a document search has no such condition of its own; its rows have no delete marker
  when the result model declares a soft-delete column (\<open>soft_delete\<close>), which bun then
  filters on.
\<close>

theorem soft_deleted_rows_excluded:
  "(CallScan q \<in> set (snd (searchMessages U appState db sid query limit)) \<and> selects q r \<longrightarrow>
      deleted_at r = None)
   \<and> (soft_delete \<and> fst (buildQuery U soft_delete dso) = Inr q' \<and> selects q' r \<longrightarrow>
      deleted_at r = None)"
proof (intro conjI impI)
  assume a: "CallScan q \<in> set (snd (searchMessages U appState db sid query limit)) \<and> selects q r"
  then have s: "CallScan q \<in> set (snd (searchMessages U appState db sid query limit))" by simp
  from searchMessages_scanned_query[OF s] obtain cl where
    cl: "\<forall>w\<in>set cl. Sep w = '' AND ''" and
    w: "q_where q = cl @ [Cond '' AND '' ''m.session_id = ?'' [ArgStr sid],
                             Cond '' AND '' ''m.deleted_at IS NULL'' []]" and
    nsd: "\<not> q_model_soft_delete q" by blast
  from a w nsd have "where_holds r (cl @ [Cond '' AND '' ''m.session_id = ?'' [ArgStr sid],
                             Cond '' AND '' ''m.deleted_at IS NULL'' []])"
    by (simp add: selects_def)
  from where_holds_last_and[OF cl this] show "deleted_at r = None"
    by (simp add: cond_holds_def)
next
  assume a: "soft_delete \<and> fst (buildQuery U soft_delete dso) = Inr q' \<and> selects q' r"
  then have b: "fst (buildQuery U soft_delete dso) = Inr q'" by blast
  from buildQuery_shape[OF b] a have
    "where_holds r (q_where q' @ [Cond '' AND '' ''deleted_at IS NULL'' []])"
    by (simp add: selects_def)
  moreover from buildQuery_where[OF b] have
    "\<forall>w\<in>set (q_where q' @ [Cond '' AND '' ''deleted_at IS NULL'' []]). Sep w = '' AND ''"
    by simp
  ultimately show "deleted_at r = None"
    using where_holds_all_and[of "q_where q' @ [Cond '' AND '' ''deleted_at IS NULL'' []]" r]
    by (simp add: cond_holds_def)
qed

text \<open>
  C9, witness: both queries select the live row and do not select the same row once it
  carries a delete marker.
\<close>

theorem soft_deleted_rows_excluded_witness:
  "(\<exists>q. CallScan q \<in> set (snd (searchMessages Unmarshal0 (Some appState0) db0 ''s1''
                                   (Some \<lparr>Text = '''', Metadata = [(''where'', JObj [(''jsonpath'', JStr ''$.a'')])]\<rparr>) 0))
        \<and> selects q row0 \<and> \<not> selects q (row0\<lparr>deleted_at := Some 200\<rparr>))
   \<and> (\<exists>q'. fst (buildQuery Unmarshal0 True
                 (newDocumentSearchOperation appState0
                    \<lparr>Text = '''', Metadata = [(''where'', JObj [(''jsonpath'', JStr ''$.a'')])]\<rparr> collection0 5 False))
              = Inr q'
        \<and> selects q' row0 \<and> \<not> selects q' (row0\<lparr>deleted_at := Some 200\<rparr>))"
proof -
  let ?pm = "\<lparr>Text = '''', Metadata = [(''where'', JObj [(''jsonpath'', JStr ''$.a'')])]\<rparr>"
  let ?dso = "newDocumentSearchOperation appState0 ?pm collection0 5 False"
  obtain q where m: "CallScan q \<in> set (snd (searchMessages Unmarshal0 (Some appState0) db0 ''s1'' (Some ?pm) 0))"
    and s: "selects q row0"
    by (auto simp: messages_defs builder_defs fixture_defs where_defs Let_def)
  obtain q' where d: "fst (buildQuery Unmarshal0 True ?dso) = Inr q'" and s': "selects q' row0"
    by (auto simp: documents_defs builder_defs fixture_defs where_defs Let_def)
  have del: "deleted_at (row0\<lparr>deleted_at := Some 200\<rparr>) \<noteq> None" by simp
  from soft_deleted_rows_excluded[where q = q and U = Unmarshal0 and appState = "Some appState0"
      and db = db0 and sid = "''s1''" and query = "Some ?pm" and limit = 0
      and r = "row0\<lparr>deleted_at := Some 200\<rparr>" and soft_delete = True and dso = ?dso and q' = q'] m d del
  have "\<not> selects q (row0\<lparr>deleted_at := Some 200\<rparr>)" and "\<not> selects q' (row0\<lparr>deleted_at := Some 200\<rparr>)"
    by auto
  with m s d s' show ?thesis by blast
qed

text \<open>
  Without that declaration the query of a document search selects a deleted row.
\<close>

lemma buildQuery_adds_no_delete_condition:
  "\<exists>q'. fst (buildQuery Unmarshal0 False
                 (newDocumentSearchOperation appState0
                    \<lparr>Text = '''', Metadata = [(''where'', JObj [(''jsonpath'', JStr ''$.a'')])]\<rparr> collection0 5 False))
              = Inr q'
        \<and> selects q' (row0\<lparr>deleted_at := Some 200\<rparr>)"
  by (simp add: documents_defs builder_defs fixture_defs where_defs Let_def)

text \<open>
  C10. The query of a message search carries the limit 10 when called with 0 and the
  limit it was called with otherwise, a negative one included. A document search
  operation carries the limit 20 when created with a limit of 0 or less, and the limit it
  was created with otherwise.
\<close>

theorem default_search_limits:
  "(CallScan q \<in> set (snd (searchMessages U appState db sid query limit)) \<longrightarrow>
      q_limit q = (if limit = 0 then 10 else limit))
   \<and> defaultSearchLimit = 10
   \<and> dso_limit (newDocumentSearchOperation a payload collection limit withMMR)
       = (if limit \<le> 0 then 20 else limit)
   \<and> DefaultDocumentSearchLimit = 20"
proof (intro conjI impI)
  assume "CallScan q \<in> set (snd (searchMessages U appState db sid query limit))"
  from searchMessages_scanned_query[OF this] show "q_limit q = (if limit = 0 then 10 else limit)"
    by auto
qed (simp_all add: newDocumentSearchOperation_def defaultSearchLimit_def DefaultDocumentSearchLimit_def)

text \<open>
  C10, witness: message searches with limits 0 and -3, operations with -3, 0 and 7.
\<close>

theorem default_search_limits_witness:
  "(\<exists>q. CallScan q \<in> set (snd (searchMessages Unmarshal0 (Some appState0) db0 ''s1''
                                   (Some \<lparr>Text = ''hello'', Metadata = []\<rparr>) 0))
        \<and> q_limit q = 10)
   \<and> (\<exists>q. CallScan q \<in> set (snd (searchMessages Unmarshal0 (Some appState0) db0 ''s1''
                                   (Some \<lparr>Text = ''hello'', Metadata = []\<rparr>) (- 3)))
        \<and> q_limit q = - 3)
   \<and> dso_limit (newDocumentSearchOperation appState0 \<lparr>Text = ''hello'', Metadata = []\<rparr> collection0 (- 3) False) = 20
   \<and> dso_limit (newDocumentSearchOperation appState0 \<lparr>Text = ''hello'', Metadata = []\<rparr> collection0 0 False) = 20
   \<and> dso_limit (newDocumentSearchOperation appState0 \<lparr>Text = ''hello'', Metadata = []\<rparr> collection0 7 False) = 7"
proof -
  let ?p = "\<lparr>Text = ''hello'', Metadata = []\<rparr>"
  obtain q where m: "CallScan q \<in> set (snd (searchMessages Unmarshal0 (Some appState0) db0 ''s1'' (Some ?p) 0))"
    by (auto simp: messages_defs builder_defs fixture_defs ReplaceAll_quote_def Let_def)
  obtain qn where n: "CallScan qn \<in> set (snd (searchMessages Unmarshal0 (Some appState0) db0 ''s1'' (Some ?p) (- 3)))"
    by (auto simp: messages_defs builder_defs fixture_defs ReplaceAll_quote_def Let_def)
  from default_search_limits[where q = q and U = Unmarshal0 and appState = "Some appState0"
      and db = db0 and sid = "''s1''" and query = "Some ?p" and limit = 0
      and a = appState0 and payload = ?p and collection = collection0 and withMMR = False] m
  have 1: "q_limit q = 10"
    and 4: "dso_limit (newDocumentSearchOperation appState0 ?p collection0 0 False) = 20" by simp_all
  from default_search_limits[where q = qn and U = Unmarshal0 and appState = "Some appState0"
      and db = db0 and sid = "''s1''" and query = "Some ?p" and limit = "- 3"
      and a = appState0 and payload = ?p and collection = collection0 and withMMR = False] n
  have 2: "q_limit qn = - 3"
    and 3: "dso_limit (newDocumentSearchOperation appState0 ?p collection0 (- 3) False) = 20" by simp_all
  from default_search_limits[where limit = 7
      and a = appState0 and payload = ?p and collection = collection0 and withMMR = False]
  have 5: "dso_limit (newDocumentSearchOperation appState0 ?p collection0 7 False) = 7" by simp
  from 1 2 3 4 5 m n show ?thesis by blast
qed

end
